theory Spec2Isabelle
  imports Complex_Main
begin

section \<open>The notebook \<open>11_dask_distributed.ipynb\<close> as a state-passing program\<close>

text \<open>
  The repository is one Jupyter notebook. Its code cells are run against a kernel whose
  global namespace is a Python dictionary from names to objects, and against an outside
  world: the local file system, the remote file behind \<open>url\<close>, the wall clock, the peak
  detector \<open>find_all_peaks\<close> (imported from \<open>supporting_docs/peak_finding.py\<close>), the
  \<open>pyUSID\<close> helper \<open>parallel_compute\<close>, the \<open>dask.distributed\<close> client and
  \<open>matplotlib\<close>. The model threads one record holding the namespace and the part of the
  world the cells touch; every exception is a value, and a name that was never assigned
  raises \<open>NameError\<close> when it is read, as in Python.
\<close>

subsection \<open>Exceptions and values\<close>

text \<open>
  The exceptions a cell can end with: Python's own, \<open>Raised\<close> for an exception that
  comes out of a call into a library (with its message), and \<open>DetectionFailed\<close>, the
  specification's name for the failure of the detector on the row of the given index.
\<close>

datatype exn =
    NameError string
  | IndexError
  | KeyError string
  | TypeError
  | ValueError
  | AttributeError
  | OSError
  | URLError
  | DetectionFailed nat
  | Raised string

text \<open>
  The objects the notebook binds to names. \<open>'a\<close> is the type of one sample of the
  dataset. A one-dimensional array is a list of samples, the two-dimensional main
  dataset a list of rows.
\<close>

datatype 'a val =
    VInt int
  | VFloat real
  | VStr string
  | VIntList "int list"
  | VArgs "int list list"
  | VKwargs "(string \<times> int) list"
  | VRow "'a list"
  | VData "'a list list"
  | VPeaks "int list"
  | VResults "int list list"
  | VFile string
  | VGroup string
  | VDataset string
  | VClient
  | VFuture nat
  | VFutures "nat list"
  | VCores "(string \<times> int) list"

subsection \<open>The outside world\<close>

text \<open>
  A USID main dataset: the sizes of its position dimensions and its rows. A file is
  either not HDF5 at all, an HDF5 file, or an image written by \<open>plt.savefig\<close>. Of an
  HDF5 file only the path the notebook follows is kept: \<open>H5 None\<close> has no group
  \<open>Measurement_000\<close>, \<open>H5 (Some None)\<close> has the group without
  \<open>Channel_000/Raw_Data\<close>, \<open>H5 (Some (Some u))\<close> holds the main dataset \<open>u\<close>.
\<close>

record 'a usid =
  pos_dim_sizes :: "int list"
  main_data :: "'a list list"

datatype 'a artist =
    Spectrum "'a list"
  | VLine int
  | Point "'a val" "'a val"

datatype 'a content =
    Blob
  | H5 "'a usid option option"
  | Image "'a artist list"

text \<open>The cluster connection, with the states the specification names.\<close>

datatype conn_state = Disconnected | Connected | DataScattered | TasksSubmitted | Gathered

text \<open>Calls into the outside world that completed, oldest first.\<close>

datatype event =
    EvTime
  | EvRemove
  | EvDownload
  | EvReadAll
  | EvReadRow
  | EvDetect
  | EvParallel
  | EvConnect
  | EvScatter
  | EvMap
  | EvGather
  | EvNCores
  | EvClose
  | EvSavefig

text \<open>
  What the notebook does not define is a parameter of the model: the detector (which may
  raise), the content served at a URL (\<open>None\<close>: the download fails), the name
  \<open>wget\<close> picks when its target exists, the wall clock as a function of what has
  happened so far, the outcome of each call on the dask client, Python's \<open>str\<close> of an
  object that is not a string, and what \<open>axis.scatter\<close> raises for coordinates that are
  neither numbers nor a dictionary.
\<close>

record 'a externals =
  find_all_peaks :: "'a list \<Rightarrow> int list \<Rightarrow> int \<Rightarrow> exn + int list"
  fetch :: "string \<Rightarrow> 'a content option"
  filename_fix_existing :: "string \<Rightarrow> string"
  clock :: "event list \<Rightarrow> real"
  new_client :: "exn option"
  client_scatter :: "'a val \<Rightarrow> exn + 'a val"
  client_map :: "'a val \<Rightarrow> 'a val \<Rightarrow> 'a val \<Rightarrow> exn + 'a val"
  client_gather :: "'a val \<Rightarrow> exn + 'a val"
  client_ncores :: "exn + 'a val"
  client_close :: "exn option"
  py_str :: "'a val \<Rightarrow> string"
  scatter_other :: "'a val \<Rightarrow> 'a val \<Rightarrow> exn option"

text \<open>The kernel and the world it runs in.\<close>

record 'a nb =
  ns :: "string \<Rightarrow> 'a val option"
  fs :: "string \<Rightarrow> 'a content option"
  conn :: conn_state
  hist :: "event list"
  fig :: "'a artist list"

subsection \<open>Statements\<close>

text \<open>
  A statement (and a cell) maps a state to the exception it raised, if any, and the state
  it left. A sequence of statements stops at the first one that raises; the state is the
  one the failing statement left.
\<close>

type_synonym 'a stmt = "'a nb \<Rightarrow> exn option \<times> 'a nb"

fun exec :: "'a stmt list \<Rightarrow> 'a stmt" where
  "exec [] w = (None, w)"
| "exec (s # ss) w = (case s w of (None, w') \<Rightarrow> exec ss w' | (Some e, w') \<Rightarrow> (Some e, w'))"

text \<open>A simple statement either raises and changes nothing, or completes.\<close>

definition atomic :: "('a nb \<Rightarrow> exn + 'a nb) \<Rightarrow> 'a stmt" where
  "atomic f w = (case f w of Inl e \<Rightarrow> (Some e, w) | Inr w' \<Rightarrow> (None, w'))"

definition lookup :: "'a nb \<Rightarrow> string \<Rightarrow> exn + 'a val" where
  "lookup w x = (case ns w x of None \<Rightarrow> Inl (NameError x) | Some v \<Rightarrow> Inr v)"

definition assign :: "string \<Rightarrow> 'a val \<Rightarrow> 'a nb \<Rightarrow> 'a nb" where
  "assign x v w = w\<lparr>ns := (ns w)(x \<mapsto> v)\<rparr>"

definition record_event :: "event \<Rightarrow> 'a nb \<Rightarrow> 'a nb" where
  "record_event ev w = w\<lparr>hist := hist w @ [ev]\<rparr>"

text \<open>\<open>x = v\<close> for a literal \<open>v\<close>.\<close>

definition assign_const :: "string \<Rightarrow> 'a val \<Rightarrow> 'a stmt" where
  "assign_const x v = atomic (\<lambda>w. Inr (assign x v w))"

text \<open>\<open>xs[i]\<close>: a negative index counts from the end, an index out of range raises.\<close>

definition py_index :: "'b list \<Rightarrow> int \<Rightarrow> exn + 'b" where
  "py_index xs i =
     (if 0 \<le> i \<and> i < int (length xs) then Inr (xs ! nat i)
      else if i < 0 \<and> - int (length xs) \<le> i then Inr (xs ! nat (int (length xs) + i))
      else Inl IndexError)"

text \<open>Evaluating one expression after another: the first exception ends the evaluation.\<close>

definition andthen :: "exn + 'b \<Rightarrow> ('b \<Rightarrow> exn + 'c) \<Rightarrow> exn + 'c" where
  "andthen m f = (case m of Inl e \<Rightarrow> Inl e | Inr x \<Rightarrow> f x)"

text \<open>Reading an object as the type an operation needs.\<close>

definition as_int :: "'a val \<Rightarrow> exn + int" where
  "as_int v = (case v of VInt i \<Rightarrow> Inr i | _ \<Rightarrow> Inl TypeError)"

definition as_float :: "'a val \<Rightarrow> exn + real" where
  "as_float v = (case v of VFloat t \<Rightarrow> Inr t | _ \<Rightarrow> Inl TypeError)"

definition as_str :: "'a val \<Rightarrow> exn + string" where
  "as_str v = (case v of VStr s \<Rightarrow> Inr s | _ \<Rightarrow> Inl TypeError)"

definition as_row :: "'a val \<Rightarrow> exn + 'a list" where
  "as_row v = (case v of VRow r \<Rightarrow> Inr r | _ \<Rightarrow> Inl TypeError)"

definition as_data :: "'a val \<Rightarrow> exn + 'a list list" where
  "as_data v = (case v of VData d \<Rightarrow> Inr d | _ \<Rightarrow> Inl TypeError)"

definition as_peaks :: "'a val \<Rightarrow> exn + int list" where
  "as_peaks v = (case v of VPeaks p \<Rightarrow> Inr p | _ \<Rightarrow> Inl TypeError)"

definition as_results :: "'a val \<Rightarrow> exn + int list list" where
  "as_results v = (case v of VResults r \<Rightarrow> Inr r | _ \<Rightarrow> Inl AttributeError)"

definition as_args :: "'a val \<Rightarrow> exn + int list list" where
  "as_args v = (case v of VArgs a \<Rightarrow> Inr a | _ \<Rightarrow> Inl TypeError)"

definition as_kwargs :: "'a val \<Rightarrow> exn + (string \<times> int) list" where
  "as_kwargs v = (case v of VKwargs k \<Rightarrow> Inr k | _ \<Rightarrow> Inl TypeError)"

definition as_file :: "'a val \<Rightarrow> exn + string" where
  "as_file v = (case v of VFile p \<Rightarrow> Inr p | _ \<Rightarrow> Inl TypeError)"

definition as_group :: "'a val \<Rightarrow> exn + string" where
  "as_group v = (case v of VGroup p \<Rightarrow> Inr p | _ \<Rightarrow> Inl TypeError)"

definition as_dataset :: "'a val \<Rightarrow> exn + string" where
  "as_dataset v = (case v of VDataset p \<Rightarrow> Inr p | _ \<Rightarrow> Inl TypeError)"

definition as_client :: "'a val \<Rightarrow> exn + unit" where
  "as_client v = (case v of VClient \<Rightarrow> Inr () | _ \<Rightarrow> Inl AttributeError)"

subsection \<open>Cell "Find main dataset"\<close>

definition url_literal :: string where
  "url_literal = ''https://raw.githubusercontent.com/pycroscopy/pyUSID/master/data/BELine_0004.h5''"

text \<open>\<open>if os.path.exists(h5_path): os.remove(h5_path)\<close>. Every entry of \<open>fs\<close> is a file.\<close>

definition remove_stale :: "'a stmt" where
  "remove_stale = atomic (\<lambda>w.
     andthen (andthen (lookup w ''h5_path'') as_str) (\<lambda>p.
       if fs w p \<noteq> None
       then Inr (record_event EvRemove (w\<lparr>fs := (fs w)(p := None)\<rparr>))
       else Inr w))"

text \<open>
  \<open>wget.download(url, out)\<close> fetches the URL and moves the result to \<open>out\<close>; when a
  file of that name exists it does not overwrite it but saves under the name
  \<open>filename_fix_existing\<close> gives. It returns the name it used. The loading cell calls it
  right after removing \<open>h5_path\<close>.
\<close>

definition wget_download :: "'a externals \<Rightarrow> string \<Rightarrow> string \<Rightarrow> 'a nb \<Rightarrow> exn + string \<times> 'a nb" where
  "wget_download X u out w =
     (case fetch X u of
        None \<Rightarrow> Inl URLError
      | Some c \<Rightarrow>
          (let filename = (if fs w out \<noteq> None then filename_fix_existing X out else out)
           in Inr (filename, record_event EvDownload (w\<lparr>fs := (fs w)(filename \<mapsto> c)\<rparr>))))"

text \<open>\<open>_ = wget.download(url, h5_path, bar=None)\<close>\<close>

definition download_stmt :: "'a externals \<Rightarrow> 'a stmt" where
  "download_stmt X = atomic (\<lambda>w.
     andthen (andthen (lookup w ''url'') as_str) (\<lambda>u.
     andthen (andthen (lookup w ''h5_path'') as_str) (\<lambda>p.
     andthen (wget_download X u p w) (\<lambda>(f, w'). Inr (assign ''_'' (VStr f) w')))))"

text \<open>\<open>h5_file = h5py.File(h5_path, mode='r')\<close>\<close>

definition open_stmt :: "'a stmt" where
  "open_stmt = atomic (\<lambda>w.
     andthen (andthen (lookup w ''h5_path'') as_str) (\<lambda>p.
       case fs w p of
         Some (H5 g) \<Rightarrow> Inr (assign ''h5_file'' (VFile p) w)
       | _ \<Rightarrow> Inl OSError))"

text \<open>\<open>h5_meas_grp = h5_file['Measurement_000']\<close>\<close>

definition group_stmt :: "'a stmt" where
  "group_stmt = atomic (\<lambda>w.
     andthen (andthen (lookup w ''h5_file'') as_file) (\<lambda>p.
       case fs w p of
         Some (H5 (Some g)) \<Rightarrow> Inr (assign ''h5_meas_grp'' (VGroup p) w)
       | Some (H5 None) \<Rightarrow> Inl (KeyError ''Measurement_000'')
       | _ \<Rightarrow> Inl OSError))"

text \<open>\<open>h5_main = usid.USIDataset(h5_meas_grp['Channel_000/Raw_Data'])\<close>\<close>

definition main_stmt :: "'a stmt" where
  "main_stmt = atomic (\<lambda>w.
     andthen (andthen (lookup w ''h5_meas_grp'') as_group) (\<lambda>p.
       case fs w p of
         Some (H5 (Some (Some u))) \<Rightarrow> Inr (assign ''h5_main'' (VDataset p) w)
       | Some (H5 (Some None)) \<Rightarrow> Inl (KeyError ''Channel_000/Raw_Data'')
       | _ \<Rightarrow> Inl OSError))"

text \<open>The dataset a \<open>USIDataset\<close> handle on the file at \<open>p\<close> reads from.\<close>

definition dataset_at :: "'a nb \<Rightarrow> string \<Rightarrow> exn + 'a usid" where
  "dataset_at w p = (case fs w p of Some (H5 (Some (Some u))) \<Rightarrow> Inr u | _ \<Rightarrow> Inl OSError)"

text \<open>\<open>num_rows, num_cols = h5_main.pos_dim_sizes\<close>: unpacking needs exactly two sizes.\<close>

definition dims_stmt :: "'a stmt" where
  "dims_stmt = atomic (\<lambda>w.
     andthen (andthen (lookup w ''h5_main'') as_dataset) (\<lambda>p.
     andthen (dataset_at w p) (\<lambda>u.
       case pos_dim_sizes u of
         [r, c] \<Rightarrow> Inr (assign ''num_cols'' (VInt c) (assign ''num_rows'' (VInt r) w))
       | _ \<Rightarrow> Inl ValueError)))"

text \<open>The cell: the first three statements clean up, the rest download and open.\<close>

definition cleanup :: "'a stmt" where
  "cleanup = exec
     [assign_const ''url'' (VStr url_literal),
      assign_const ''h5_path'' (VStr ''temp.h5''),
      remove_stale]"

definition open_stmts :: "'a externals \<Rightarrow> 'a stmt list" where
  "open_stmts X =
     [download_stmt X,
      open_stmt,
      group_stmt,
      main_stmt,
      dims_stmt]"

definition load_cell :: "'a externals \<Rightarrow> 'a stmt" where
  "load_cell X = exec (cleanup # open_stmts X)"

subsection \<open>Cell "Test find_all_peaks"\<close>

text \<open>\<open>pixel_ind = col_ind + row_ind * num_cols\<close>\<close>

definition pixel_ind_stmt :: "'a stmt" where
  "pixel_ind_stmt = atomic (\<lambda>w.
     andthen (andthen (lookup w ''col_ind'') as_int) (\<lambda>c.
     andthen (andthen (lookup w ''row_ind'') as_int) (\<lambda>r.
     andthen (andthen (lookup w ''num_cols'') as_int) (\<lambda>n.
       Inr (assign ''pixel_ind'' (VInt (c + r * n)) w)))))"

text \<open>\<open>spectra = h5_main[pixel_ind]\<close>\<close>

definition spectra_stmt :: "'a stmt" where
  "spectra_stmt = atomic (\<lambda>w.
     andthen (andthen (lookup w ''h5_main'') as_dataset) (\<lambda>p.
     andthen (andthen (lookup w ''pixel_ind'') as_int) (\<lambda>i.
     andthen (dataset_at w p) (\<lambda>u.
     andthen (py_index (main_data u) i) (\<lambda>r.
       Inr (assign ''spectra'' (VRow r) (record_event EvReadRow w)))))))"

text \<open>\<open>peak_inds = find_all_peaks(spectra, [20, 60], num_steps=30)\<close>\<close>

definition peak_inds_stmt :: "'a externals \<Rightarrow> 'a stmt" where
  "peak_inds_stmt X = atomic (\<lambda>w.
     andthen (andthen (lookup w ''spectra'') as_row) (\<lambda>r.
     andthen (find_all_peaks X r [20, 60] 30) (\<lambda>p.
       Inr (assign ''peak_inds'' (VPeaks p) (record_event EvDetect w)))))"

text \<open>
  \<open>fig, axis = plt.subplots()\<close> opens a new current figure; the model keeps the figure in
  \<open>fig\<close> and does not bind the names \<open>fig\<close> and \<open>axis\<close>, which each plotting cell
  assigns before it reads them. Calls into \<open>matplotlib\<close> are taken to succeed.
\<close>

definition subplots_stmt :: "'a stmt" where
  "subplots_stmt = atomic (\<lambda>w. Inr (w\<lparr>fig := []\<rparr>))"

text \<open>\<open>axis.scatter(np.arange(len(spectra)), np.abs(spectra), c='black')\<close>\<close>

definition scatter_spectra_stmt :: "'a stmt" where
  "scatter_spectra_stmt = atomic (\<lambda>w.
     andthen (andthen (lookup w ''spectra'') as_row) (\<lambda>r.
       Inr (w\<lparr>fig := fig w @ [Spectrum r]\<rparr>)))"

text \<open>\<open>axis.axvline(peak_inds[0], color='r', linewidth=2)\<close>\<close>

definition axvline_stmt :: "'a stmt" where
  "axvline_stmt = atomic (\<lambda>w.
     andthen (andthen (lookup w ''peak_inds'') as_peaks) (\<lambda>ps.
     andthen (py_index ps 0) (\<lambda>p.
       Inr (w\<lparr>fig := fig w @ [VLine p]\<rparr>))))"

text \<open>
  \<open>axis.set_ylim([0, 1.1 * np.max(np.abs(spectra))])\<close>: \<open>np.max\<close> of an empty array
  raises.
\<close>

definition set_ylim_stmt :: "'a stmt" where
  "set_ylim_stmt = atomic (\<lambda>w.
     andthen (andthen (lookup w ''spectra'') as_row) (\<lambda>r.
       if r = [] then Inl ValueError else Inr w))"

text \<open>\<open>axis.set_title('... {}'.format(peak_inds), fontsize=16)\<close>\<close>

definition set_title_stmt :: "'a stmt" where
  "set_title_stmt = atomic (\<lambda>w. andthen (lookup w ''peak_inds'') (\<lambda>_. Inr w))"

definition pixel_cell :: "'a externals \<Rightarrow> 'a stmt" where
  "pixel_cell X = exec
     [assign_const ''row_ind'' (VInt 110),
      assign_const ''col_ind'' (VInt 25),
      pixel_ind_stmt,
      spectra_stmt,
      peak_inds_stmt X,
      subplots_stmt,
      scatter_spectra_stmt,
      axvline_stmt,
      set_ylim_stmt,
      set_title_stmt]"

subsection \<open>Statements the three strategy cells share\<close>

text \<open>\<open>start = time.time()\<close>\<close>

definition start_stmt :: "'a externals \<Rightarrow> 'a stmt" where
  "start_stmt X = atomic (\<lambda>w.
     Inr (assign ''start'' (VFloat (clock X (hist w))) (record_event EvTime w)))"

text \<open>\<open>t = time.time() - start\<close>\<close>

definition elapsed_stmt :: "'a externals \<Rightarrow> string \<Rightarrow> 'a stmt" where
  "elapsed_stmt X t = atomic (\<lambda>w.
     andthen (andthen (lookup w ''start'') as_float) (\<lambda>s.
       Inr (assign t (VFloat (clock X (hist w) - s)) (record_event EvTime w))))"

text \<open>\<open>raw_data = h5_main[()]\<close>: the whole main dataset is read from the file.\<close>

definition read_all :: "'a nb \<Rightarrow> exn + 'a list list" where
  "read_all w =
     andthen (andthen (lookup w ''h5_main'') as_dataset) (\<lambda>p.
     andthen (dataset_at w p) (\<lambda>u. Inr (main_data u)))"

definition read_all_stmt :: "'a stmt" where
  "read_all_stmt = atomic (\<lambda>w.
     andthen (read_all w) (\<lambda>rows.
       Inr (assign ''raw_data'' (VData rows) (record_event EvReadAll w))))"

text \<open>\<open>x = y\<close> for two names.\<close>

definition copy_stmt :: "string \<Rightarrow> string \<Rightarrow> 'a stmt" where
  "copy_stmt x y = atomic (\<lambda>w. andthen (lookup w y) (\<lambda>v. Inr (assign x v w)))"

subsection \<open>Cell "Compute Serially"\<close>

text \<open>
  \<open>for vector in raw_data: serial_results.append(find_all_peaks(vector, [20, 60], num_steps=30))\<close>.
  A detector that raises on some row ends the loop there, with the results of the earlier
  rows already appended.
\<close>

fun for_vector :: "'a externals \<Rightarrow> 'a list list \<Rightarrow> 'a stmt" where
  "for_vector X [] w = (None, w)"
| "for_vector X (v # vs) w =
     (let w1 = assign ''vector'' (VRow v) w in
      case andthen (andthen (lookup w1 ''serial_results'') as_results) (\<lambda>rs.
           andthen (find_all_peaks X v [20, 60] 30) (\<lambda>p.
             Inr (assign ''serial_results'' (VResults (rs @ [p])) (record_event EvDetect w1)))) of
        Inl e \<Rightarrow> (Some e, w1)
      | Inr w2 \<Rightarrow> for_vector X vs w2)"

definition for_stmt :: "'a externals \<Rightarrow> 'a stmt" where
  "for_stmt X w =
     (case andthen (lookup w ''raw_data'') as_data of
        Inl e \<Rightarrow> (Some e, w)
      | Inr rows \<Rightarrow> for_vector X rows w)"

definition serial_cell :: "'a externals \<Rightarrow> 'a stmt" where
  "serial_cell X = exec
     [start_stmt X,
      read_all_stmt,
      assign_const ''serial_results'' (VResults []),
      for_stmt X,
      elapsed_stmt X ''time_serial'',
      assign_const ''core_serial'' (VInt 1)]"

subsection \<open>Cell "Compute using pyUSID parallel_compute() function"\<close>

text \<open>
  Modelled from the spec: \<open>usid.parallel_compute\<close> belongs to the \<open>pyUSID\<close> package and
  is not among the sources. The specification's words: LocalMultiCore "partitions rows
  across a bounded worker pool sized by a caller-supplied core count \<open>c \<ge> 1\<close>; each worker
  processes a partition serially; results are gathered and reassembled in original order.
  A single worker failure fails the whole batch (fail-fast policy) and is reported as
  \<open>DetectionFailed(rowIndex)\<close>." The rows are cut into at most \<open>c\<close> consecutive partitions
  of equal size (the last may be shorter); the failure reported is that of the first
  partition, in row order, that has one. The specification says nothing of \<open>c < 1\<close>; the
  model rejects it.
\<close>

fun chunks :: "nat \<Rightarrow> 'b list \<Rightarrow> 'b list list" where
  "chunks k xs =
     (if xs = [] then []
      else if k = 0 then [xs]
      else take k xs # chunks k (drop k xs))"

definition partition_rows :: "nat \<Rightarrow> 'b list \<Rightarrow> 'b list list" where
  "partition_rows c rows = chunks ((length rows + c - 1) div c) rows"

fun worker :: "('b \<Rightarrow> exn + 'c) \<Rightarrow> nat \<Rightarrow> 'b list \<Rightarrow> exn + 'c list" where
  "worker f i [] = Inr []"
| "worker f i (v # vs) =
     (case f v of
        Inl _ \<Rightarrow> Inl (DetectionFailed i)
      | Inr p \<Rightarrow> (case worker f (Suc i) vs of Inl e \<Rightarrow> Inl e | Inr ps \<Rightarrow> Inr (p # ps)))"

fun reassemble :: "('b \<Rightarrow> exn + 'c) \<Rightarrow> nat \<Rightarrow> 'b list list \<Rightarrow> exn + 'c list" where
  "reassemble f i [] = Inr []"
| "reassemble f i (part # parts) =
     (case worker f i part of
        Inl e \<Rightarrow> Inl e
      | Inr rs \<Rightarrow>
          (case reassemble f (i + length part) parts of
             Inl e \<Rightarrow> Inl e
           | Inr rest \<Rightarrow> Inr (rs @ rest)))"

definition parallel_compute :: "'b list \<Rightarrow> ('b \<Rightarrow> exn + 'c) \<Rightarrow> int \<Rightarrow> exn + 'c list" where
  "parallel_compute rows func cores =
     (if cores < 1 then Inl ValueError
      else reassemble func 0 (partition_rows (nat cores) rows))"

text \<open>
  \<open>func(row, *func_args, **func_kwargs)\<close> for \<open>func = find_all_peaks\<close>, whose signature
  is \<open>(vector, width_bounds, num_steps=...)\<close> as the notebook calls it.
\<close>

definition call_detector :: "'a externals \<Rightarrow> int list list \<Rightarrow> (string \<times> int) list \<Rightarrow> 'a list \<Rightarrow> exn + int list" where
  "call_detector X a k v =
     (case a of
        [wb] \<Rightarrow>
          (case k of
             [(key, n)] \<Rightarrow> if key = ''num_steps'' then find_all_peaks X v wb n else Inl TypeError
           | _ \<Rightarrow> Inl TypeError)
      | _ \<Rightarrow> Inl TypeError)"

text \<open>
  \<open>parallel_results = usid.parallel_compute(raw_data, find_all_peaks, cores=cores,
  func_args=args, func_kwargs=kwargs)\<close>
\<close>

definition parallel_stmt :: "'a externals \<Rightarrow> 'a stmt" where
  "parallel_stmt X = atomic (\<lambda>w.
     andthen (andthen (lookup w ''raw_data'') as_data) (\<lambda>rows.
     andthen (andthen (lookup w ''cores'') as_int) (\<lambda>c.
     andthen (andthen (lookup w ''args'') as_args) (\<lambda>a.
     andthen (andthen (lookup w ''kwargs'') as_kwargs) (\<lambda>k.
     andthen (parallel_compute rows (call_detector X a k) c) (\<lambda>rs.
       Inr (assign ''parallel_results'' (VResults rs) (record_event EvParallel w))))))))"

definition parallel_cell :: "'a externals \<Rightarrow> 'a stmt" where
  "parallel_cell X = exec
     [start_stmt X,
      read_all_stmt,
      assign_const ''args'' (VArgs [[20, 60]]),
      assign_const ''kwargs'' (VKwargs [(''num_steps'', 30)]),
      assign_const ''cores'' (VInt 3),
      parallel_stmt X,
      elapsed_stmt X ''time_parallel'',
      copy_stmt ''cores_parallel'' ''cores'']"

subsection \<open>Cell "Compute using Dask"\<close>

text \<open>\<open>client = Client(processes=False)\<close>\<close>

definition client_stmt :: "'a externals \<Rightarrow> 'a stmt" where
  "client_stmt X = atomic (\<lambda>w.
     case new_client X of
       Some e \<Rightarrow> Inl e
     | None \<Rightarrow> Inr (assign ''client'' VClient (record_event EvConnect (w\<lparr>conn := Connected\<rparr>))))"

text \<open>\<open>raw_data = client.scatter(raw_data)\<close>\<close>

definition scatter_stmt :: "'a externals \<Rightarrow> 'a stmt" where
  "scatter_stmt X = atomic (\<lambda>w.
     andthen (andthen (lookup w ''client'') as_client) (\<lambda>_.
     andthen (lookup w ''raw_data'') (\<lambda>d.
     andthen (client_scatter X d) (\<lambda>h.
       Inr (assign ''raw_data'' h (record_event EvScatter (w\<lparr>conn := DataScattered\<rparr>)))))))"

text \<open>
  \<open>L = client.map(find_all_peaks, raw_data_list, args, kwargs)\<close>: the arguments are
  evaluated left to right before the call; no cell assigns \<open>raw_data_list\<close>.
\<close>

definition map_stmt :: "'a externals \<Rightarrow> 'a stmt" where
  "map_stmt X = atomic (\<lambda>w.
     andthen (andthen (lookup w ''client'') as_client) (\<lambda>_.
     andthen (lookup w ''raw_data_list'') (\<lambda>d.
     andthen (lookup w ''args'') (\<lambda>a.
     andthen (lookup w ''kwargs'') (\<lambda>k.
     andthen (client_map X d a k) (\<lambda>futures.
       Inr (assign ''L'' futures (record_event EvMap (w\<lparr>conn := TasksSubmitted\<rparr>)))))))))"

text \<open>\<open>dask_results = client.gather(L)\<close>\<close>

definition gather_stmt :: "'a externals \<Rightarrow> 'a stmt" where
  "gather_stmt X = atomic (\<lambda>w.
     andthen (andthen (lookup w ''client'') as_client) (\<lambda>_.
     andthen (lookup w ''L'') (\<lambda>futures.
     andthen (client_gather X futures) (\<lambda>rs.
       Inr (assign ''dask_results'' rs (record_event EvGather (w\<lparr>conn := Gathered\<rparr>)))))))"

text \<open>\<open>cores_dask = client.ncores()\<close>\<close>

definition ncores_stmt :: "'a externals \<Rightarrow> 'a stmt" where
  "ncores_stmt X = atomic (\<lambda>w.
     andthen (andthen (lookup w ''client'') as_client) (\<lambda>_.
     andthen (client_ncores X) (\<lambda>n.
       Inr (assign ''cores_dask'' n (record_event EvNCores w)))))"

text \<open>\<open>client.close()\<close>\<close>

definition close_stmt :: "'a externals \<Rightarrow> 'a stmt" where
  "close_stmt X = atomic (\<lambda>w.
     andthen (andthen (lookup w ''client'') as_client) (\<lambda>_.
       case client_close X of
         Some e \<Rightarrow> Inl e
       | None \<Rightarrow> Inr (record_event EvClose (w\<lparr>conn := Disconnected\<rparr>))))"

definition dask_cell :: "'a externals \<Rightarrow> 'a stmt" where
  "dask_cell X = exec
     [start_stmt X,
      read_all_stmt,
      assign_const ''args'' (VIntList [20, 60]),
      assign_const ''kwargs'' (VKwargs [(''num_steps'', 30)]),
      client_stmt X,
      scatter_stmt X,
      map_stmt X,
      gather_stmt X,
      ncores_stmt X,
      close_stmt X,
      elapsed_stmt X ''time_dask'']"

subsection \<open>Cell "Plot benchmarks"\<close>

text \<open>
  \<open>axis.scatter(x, y, c=...)\<close> for two names \<open>x\<close> and \<open>y\<close>. Both names are read
  before the call. \<open>matplotlib\<close> turns the coordinates into arrays of floats: two numbers
  give one point, a dictionary (what \<open>client.ncores()\<close> returns, one entry per worker)
  raises \<open>TypeError\<close>; for any other object the outcome is a parameter.
\<close>

definition is_number :: "'a val \<Rightarrow> bool" where
  "is_number v = (case v of VInt i \<Rightarrow> True | VFloat t \<Rightarrow> True | _ \<Rightarrow> False)"

definition is_dict :: "'a val \<Rightarrow> bool" where
  "is_dict v = (case v of VCores c \<Rightarrow> True | VKwargs k \<Rightarrow> True | _ \<Rightarrow> False)"

definition scatter_raises :: "'a externals \<Rightarrow> 'a val \<Rightarrow> 'a val \<Rightarrow> exn option" where
  "scatter_raises X vx vy =
     (if is_number vx \<and> is_number vy then None
      else if is_dict vx \<or> is_dict vy then Some TypeError
      else scatter_other X vx vy)"

definition scatter_point_stmt :: "'a externals \<Rightarrow> string \<Rightarrow> string \<Rightarrow> 'a stmt" where
  "scatter_point_stmt X x y = atomic (\<lambda>w.
     andthen (lookup w x) (\<lambda>vx.
     andthen (lookup w y) (\<lambda>vy.
       case scatter_raises X vx vy of
         Some e \<Rightarrow> Inl e
       | None \<Rightarrow> Inr (w\<lparr>fig := fig w @ [Point vx vy]\<rparr>))))"

text \<open>\<open>'{}.png'.format(v)\<close>\<close>

definition png_format :: "'a externals \<Rightarrow> 'a val \<Rightarrow> string" where
  "png_format X v = (case v of VStr s \<Rightarrow> s | _ \<Rightarrow> py_str X v) @ ''.png''"

text \<open>\<open>plt.savefig('{}.png'.format(png_name))\<close> writes the current figure.\<close>

definition savefig_stmt :: "'a externals \<Rightarrow> 'a stmt" where
  "savefig_stmt X = atomic (\<lambda>w.
     andthen (lookup w ''png_name'') (\<lambda>v.
       Inr (record_event EvSavefig (w\<lparr>fs := (fs w)(png_format X v \<mapsto> Image (fig w))\<rparr>))))"

text \<open>
  The calls \<open>set_xlabel\<close>, \<open>set_ylabel\<close>, \<open>plt.legend()\<close> and \<open>fig.tight_layout()\<close>
  between the last \<open>scatter\<close> and \<open>savefig\<close> read no name of the namespace and add no
  point; they are left out, and \<open>savefig\<close> is taken to succeed once its file name is
  formed.
\<close>

definition plot_cell :: "'a externals \<Rightarrow> 'a stmt" where
  "plot_cell X = exec
     [subplots_stmt,
      scatter_point_stmt X ''core_serial'' ''time_serial'',
      scatter_point_stmt X ''cores_parallel'' ''time_parallel'',
      scatter_point_stmt X ''cores_dask'' ''time_dask'',
      savefig_stmt X]"

subsection \<open>The notebook\<close>

text \<open>
  The code cells after the imports, in order; the import cell is taken to have
  completed. "Run All" stops at the first cell that raises, which is \<open>exec\<close> on cells;
  running every cell whatever the earlier ones did (cell by cell, or with errors allowed)
  is \<open>run_each\<close>.
\<close>

definition strategy_cells :: "'a externals \<Rightarrow> 'a stmt list" where
  "strategy_cells X = [serial_cell X, parallel_cell X, dask_cell X]"

definition notebook :: "'a externals \<Rightarrow> 'a stmt list" where
  "notebook X = [load_cell X, pixel_cell X] @ strategy_cells X @ [plot_cell X]"

definition run_all :: "'a externals \<Rightarrow> 'a stmt" where
  "run_all X = exec (notebook X)"

fun run_each :: "'a stmt list \<Rightarrow> 'a nb \<Rightarrow> exn option list \<times> 'a nb" where
  "run_each [] w = ([], w)"
| "run_each (c # cs) w =
     (case c w of (r, w') \<Rightarrow> (case run_each cs w' of (rs, w'') \<Rightarrow> (r # rs, w'')))"

text \<open>
  A kernel that has just been started: only the names the caller put into the namespace
  are bound, no cluster connection is open, nothing has happened, no figure is open.
\<close>

definition fresh :: "(string \<Rightarrow> 'a val option) \<Rightarrow> (string \<Rightarrow> 'a content option) \<Rightarrow> 'a nb" where
  "fresh names files = \<lparr>ns = names, fs = files, conn = Disconnected, hist = [], fig = []\<rparr>"

text \<open>The calls that completed between two states of one run.\<close>

definition since :: "'a nb \<Rightarrow> 'a nb \<Rightarrow> event list" where
  "since w w' = drop (length (hist w)) (hist w')"

subsection \<open>Concrete inputs\<close>

text \<open>
  The scenario of the specification: three rows of ten samples and a detector that answers
  \<open>[4]\<close> whatever it is called with. The clock counts the calls made so far, the cluster
  accepts every call; it runs one task, whose result is the detector's answer.
\<close>

definition demo_rows :: "int list list" where
  "demo_rows =
     [[0, 1, 2, 3, 9, 3, 2, 1, 0, 0],
      [1, 1, 2, 4, 8, 4, 2, 1, 1, 0],
      [0, 2, 3, 5, 7, 5, 3, 2, 0, 1]]"

definition demo_file :: "int content" where
  "demo_file = H5 (Some (Some \<lparr>pos_dim_sizes = [3, 1], main_data = demo_rows\<rparr>))"

definition demo_externals :: "int externals" where
  "demo_externals =
     \<lparr>find_all_peaks = (\<lambda>v wb n. Inr [4]),
      fetch = (\<lambda>u. if u = url_literal then Some demo_file else None),
      filename_fix_existing = (\<lambda>p. p @ '' (1)''),
      clock = (\<lambda>h. real (length h)),
      new_client = None,
      client_scatter = (\<lambda>d. Inr (VFuture 0)),
      client_map = (\<lambda>d a k. Inr (VFutures [1])),
      client_gather = (\<lambda>l. Inr (VResults [[4]])),
      client_ncores = Inr (VCores [(''worker'', 4)]),
      client_close = None,
      py_str = (\<lambda>v. ''object''),
      scatter_other = (\<lambda>vx vy. Some TypeError)\<rparr>"

text \<open>A dataset tall enough for the pixel the demonstration cell picks (index 135).\<close>

definition tall_file :: "int content" where
  "tall_file = H5 (Some (Some \<lparr>pos_dim_sizes = [136, 1], main_data = replicate 136 [0, 2, 1]\<rparr>))"

text \<open>
  The state a just started kernel is in after the cell "Find main dataset", for the names
  the caller bound beforehand and an empty working directory.
\<close>

definition loaded :: "'a externals \<Rightarrow> (string \<Rightarrow> 'a val option) \<Rightarrow> 'a nb" where
  "loaded X names = snd (load_cell X (fresh names Map.empty))"

text \<open>The tall dataset with a detector that finds no peak.\<close>

definition flat_externals :: "int externals" where
  "flat_externals =
     demo_externals
       \<lparr>find_all_peaks := (\<lambda>v wb n. Inr []),
        fetch := (\<lambda>u. Some tall_file),
        client_gather := (\<lambda>l. Inr (VResults [[]]))\<rparr>"

text \<open>A working directory that holds an older \<open>temp.h5\<close> with other data.\<close>

definition stale_dir :: "string \<Rightarrow> int content option" where
  "stale_dir = [''temp.h5'' \<mapsto> H5 (Some (Some \<lparr>pos_dim_sizes = [1, 1], main_data = [[9, 9, 9]]\<rparr>))]"

text \<open>A caller that binds the two names no cell assigns before running the notebook.\<close>

definition supplied :: "string \<Rightarrow> int val option" where
  "supplied = [''raw_data_list'' \<mapsto> VData demo_rows, ''png_name'' \<mapsto> VStr ''benchmark'']"

text \<open>A cluster on which gathering fails, and one on which scattering fails.\<close>

definition gather_fails :: "int externals" where
  "gather_fails = demo_externals\<lparr>client_gather := (\<lambda>l. Inl (Raised ''worker lost''))\<rparr>"

definition scatter_fails :: "int externals" where
  "scatter_fails = demo_externals\<lparr>client_scatter := (\<lambda>d. Inl (Raised ''scatter refused''))\<rparr>"

text \<open>A cluster whose client cannot be closed.\<close>

definition close_fails :: "int externals" where
  "close_fails = demo_externals\<lparr>client_close := Some (Raised ''close timed out'')\<rparr>"

text \<open>A detector that raises whatever it is called with; so does gathering its task.\<close>

definition detector_fails :: "int externals" where
  "detector_fails =
     demo_externals
       \<lparr>find_all_peaks := (\<lambda>v wb n. Inl (Raised ''no peak'')),
        client_gather := (\<lambda>l. Inl (Raised ''no peak''))\<rparr>"

text \<open>
  A tall dataset whose last row, the pixel of the demonstration cell, has a peak, and a
  detector that raises on rows without one; gathering a task on such a row raises what
  the detector raised.
\<close>

definition picky_file :: "int content" where
  "picky_file =
     H5 (Some (Some \<lparr>pos_dim_sizes = [136, 1],
                     main_data = [0, 2, 1] # replicate 134 [0, 2, 1] @ [[0, 9, 0]]\<rparr>))"

definition picky_externals :: "int externals" where
  "picky_externals =
     demo_externals
       \<lparr>find_all_peaks := (\<lambda>v wb n. if v = [0, 9, 0] then Inr [1] else Inl (Raised ''no peak'')),
        fetch := (\<lambda>u. Some picky_file),
        client_gather := (\<lambda>l. Inl (Raised ''no peak''))\<rparr>"

text \<open>The tall dataset with a detector that answers \<open>[1]\<close> for every row.\<close>

definition tall_externals :: "int externals" where
  "tall_externals =
     demo_externals
       \<lparr>find_all_peaks := (\<lambda>v wb n. Inr [1]),
        fetch := (\<lambda>u. Some tall_file),
        client_gather := (\<lambda>l. Inr (VResults [[1]]))\<rparr>"

text \<open>
  A file whose main dataset has no rows; such a dataset has no position dimension to
  report a size for.
\<close>

definition empty_file :: "int content" where
  "empty_file = H5 (Some (Some \<lparr>pos_dim_sizes = [], main_data = []\<rparr>))"

definition empty_externals :: "int externals" where
  "empty_externals = demo_externals\<lparr>fetch := (\<lambda>u. Some empty_file)\<rparr>"

text \<open>A caller that binds \<open>png_name\<close> and nothing else.\<close>

definition named :: "string \<Rightarrow> int val option" where
  "named = [''png_name'' \<mapsto> VStr ''benchmark'']"

section \<open>Properties\<close>

subsection \<open>Unfolding statements\<close>

lemmas stmt_defs =
  exec.simps(2) atomic_def andthen_def lookup_def assign_def record_event_def assign_const_def
  copy_stmt_def start_stmt_def elapsed_stmt_def read_all_def read_all_stmt_def
  Let_def

lemmas as_defs =
  as_int_def as_float_def as_str_def as_row_def as_data_def as_peaks_def as_results_def
  as_args_def as_kwargs_def as_file_def as_group_def as_dataset_def as_client_def

subsection \<open>Sequencing\<close>

lemma exec_append:
  "exec (ss @ ts) w =
     (case exec ss w of (None, w') \<Rightarrow> exec ts w' | (Some e, w') \<Rightarrow> (Some e, w'))"
  by (induction ss arbitrary: w) (auto split: prod.splits option.splits)

lemma exec_Cons_None:
  "exec (s # ss) w = (None, w') \<longleftrightarrow> (\<exists>w1. s w = (None, w1) \<and> exec ss w1 = (None, w'))"
  by (auto split: prod.splits option.splits)

lemma exec_Cons_Some:
  "exec (s # ss) w = (Some e, w') \<longleftrightarrow>
     s w = (Some e, w') \<or> (\<exists>w1. s w = (None, w1) \<and> exec ss w1 = (Some e, w'))"
  by (auto split: prod.splits option.splits)

declare exec.simps(2) [simp del]

lemma atomic_None: "atomic f w = (None, w') \<longleftrightarrow> f w = Inr w'"
  by (auto simp: atomic_def split: sum.splits)

lemma atomic_Some: "atomic f w = (Some e, w') \<longleftrightarrow> f w = Inl e \<and> w' = w"
  by (auto simp: atomic_def split: sum.splits)

lemma andthen_Inr: "andthen m f = Inr y \<longleftrightarrow> (\<exists>x. m = Inr x \<and> f x = Inr y)"
  by (auto simp: andthen_def split: sum.splits)

lemma andthen_Inl: "andthen m f = Inl e \<longleftrightarrow> m = Inl e \<or> (\<exists>x. m = Inr x \<and> f x = Inl e)"
  by (auto simp: andthen_def split: sum.splits)

lemma dataset_at_frame [simp]:
  "dataset_at (w\<lparr>ns := m\<rparr>) p = dataset_at w p"
  "dataset_at (w\<lparr>hist := h\<rparr>) p = dataset_at w p"
  "dataset_at (w\<lparr>fig := g\<rparr>) p = dataset_at w p"
  "dataset_at (w\<lparr>conn := c\<rparr>) p = dataset_at w p"
  by (simp_all add: dataset_at_def)

lemma py_index_Nil [simp]: "py_index [] i = Inl IndexError"
  by (simp add: py_index_def)

subsection \<open>The partitioned computation is the row-wise one\<close>

declare chunks.simps [simp del]

lemma concat_chunks: "concat (chunks k xs) = xs"
proof (induction k xs rule: chunks.induct)
  case (1 k xs)
  show ?case
  proof (cases "xs = [] \<or> k = 0")
    case True
    then show ?thesis by (auto simp: chunks.simps [of k xs])
  next
    case False
    with "1.IH" have "concat (chunks k (drop k xs)) = drop k xs" by simp
    with False show ?thesis by (simp add: chunks.simps [of k xs])
  qed
qed

lemma worker_append:
  "worker f i (xs @ ys) =
     (case worker f i xs of
        Inl e \<Rightarrow> Inl e
      | Inr rs \<Rightarrow>
          (case worker f (i + length xs) ys of Inl e \<Rightarrow> Inl e | Inr rest \<Rightarrow> Inr (rs @ rest)))"
  by (induction xs arbitrary: i) (auto split: sum.splits)

lemma reassemble_concat: "reassemble f i parts = worker f i (concat parts)"
proof (induction parts arbitrary: i)
  case Nil
  show ?case by simp
next
  case (Cons part parts)
  show ?case by (simp add: Cons.IH worker_append split: sum.splits)
qed

lemma parallel_compute_rowwise:
  "1 \<le> c \<Longrightarrow> parallel_compute rows f c = worker f 0 rows"
  by (simp add: parallel_compute_def partition_rows_def reassemble_concat concat_chunks)

lemma worker_length: "worker f i rows = Inr rs \<Longrightarrow> length rs = length rows"
  by (induction rows arbitrary: i rs) (auto split: sum.splits)

subsection \<open>Worker count of the local multi-core strategy\<close>

text \<open>
  C6. For a fixed dataset and fixed detector parameters, any two worker counts
  \<open>c1 \<ge> 1\<close> and \<open>c2 \<ge> 1\<close> give the same outcome of \<open>parallel_compute\<close>, and the
  statement of the notebook that calls it, run with \<open>cores\<close> bound to \<open>c1\<close> or to
  \<open>c2\<close>, raises in both cases or in neither and binds \<open>parallel_results\<close> to the same
  sequence.
\<close>

theorem parallel_results_independent_of_cores:
  "1 \<le> c1 \<Longrightarrow> 1 \<le> c2 \<Longrightarrow>
     parallel_compute rows func c1 = parallel_compute rows func c2 \<and>
     fst (parallel_stmt X (assign ''cores'' (VInt c1) w)) =
       fst (parallel_stmt X (assign ''cores'' (VInt c2) w)) \<and>
     ns (snd (parallel_stmt X (assign ''cores'' (VInt c1) w))) ''parallel_results'' =
       ns (snd (parallel_stmt X (assign ''cores'' (VInt c2) w))) ''parallel_results''"
proof -
  assume c: "1 \<le> c1" "1 \<le> c2"
  have pure: "parallel_compute rs f c1 = parallel_compute rs f c2" for rs :: "'d list" and f :: "'d \<Rightarrow> exn + 'e"
    using c by (simp add: parallel_compute_rowwise)
  have raised: "fst (parallel_stmt X (assign ''cores'' (VInt c1) w)) =
      fst (parallel_stmt X (assign ''cores'' (VInt c2) w))"
    by (simp add: parallel_stmt_def stmt_defs as_defs pure
        split: option.splits sum.splits val.splits)
  have bound: "ns (snd (parallel_stmt X (assign ''cores'' (VInt c1) w))) ''parallel_results'' =
      ns (snd (parallel_stmt X (assign ''cores'' (VInt c2) w))) ''parallel_results''"
    by (simp add: parallel_stmt_def stmt_defs as_defs pure
        split: option.splits sum.splits val.splits)
  from pure raised bound show ?thesis by blast
qed

theorem parallel_results_independent_of_cores_witness:
  "(1::int) \<le> 2 \<and> (1::int) \<le> 3 \<and>
   parallel_compute demo_rows (call_detector demo_externals [[20, 60]] [(''num_steps'', 30)]) 2 =
     parallel_compute demo_rows (call_detector demo_externals [[20, 60]] [(''num_steps'', 30)]) 3 \<and>
   parallel_compute demo_rows (call_detector demo_externals [[20, 60]] [(''num_steps'', 30)]) 3 =
     Inr [[4], [4], [4]]"
proof -
  have "parallel_compute demo_rows (call_detector demo_externals [[20, 60]] [(''num_steps'', 30)]) 2 =
     parallel_compute demo_rows (call_detector demo_externals [[20, 60]] [(''num_steps'', 30)]) 3"
    using parallel_results_independent_of_cores
      [of 2 3 demo_rows "call_detector demo_externals [[20, 60]] [(''num_steps'', 30)]"
          demo_externals "loaded demo_externals Map.empty"]
    by simp
  moreover have "parallel_compute demo_rows (call_detector demo_externals [[20, 60]] [(''num_steps'', 30)]) 3 =
     Inr [[4], [4], [4]]"
    by (simp add: parallel_compute_rowwise demo_rows_def call_detector_def demo_externals_def)
  ultimately show ?thesis by simp
qed

subsection \<open>The state after loading\<close>

lemma load_cell_fresh:
  "fetch X url_literal = Some (H5 (Some (Some u))) \<Longrightarrow> pos_dim_sizes u = [r, c] \<Longrightarrow>
   load_cell X (fresh names Map.empty) =
     (None,
      \<lparr>ns = names(''url'' \<mapsto> VStr url_literal, ''h5_path'' \<mapsto> VStr ''temp.h5'',
               ''_'' \<mapsto> VStr ''temp.h5'', ''h5_file'' \<mapsto> VFile ''temp.h5'',
               ''h5_meas_grp'' \<mapsto> VGroup ''temp.h5'', ''h5_main'' \<mapsto> VDataset ''temp.h5'',
               ''num_rows'' \<mapsto> VInt r, ''num_cols'' \<mapsto> VInt c),
       fs = [''temp.h5'' \<mapsto> H5 (Some (Some u))],
       conn = Disconnected, hist = [EvDownload], fig = []\<rparr>)"
  by (simp add: load_cell_def cleanup_def open_stmts_def fresh_def
      remove_stale_def download_stmt_def wget_download_def open_stmt_def group_stmt_def
      main_stmt_def dims_stmt_def dataset_at_def stmt_defs as_defs)

lemma loaded_state:
  "fetch X url_literal = Some (H5 (Some (Some u))) \<Longrightarrow> pos_dim_sizes u = [r, c] \<Longrightarrow>
   loaded X names =
     \<lparr>ns = names(''url'' \<mapsto> VStr url_literal, ''h5_path'' \<mapsto> VStr ''temp.h5'',
               ''_'' \<mapsto> VStr ''temp.h5'', ''h5_file'' \<mapsto> VFile ''temp.h5'',
               ''h5_meas_grp'' \<mapsto> VGroup ''temp.h5'', ''h5_main'' \<mapsto> VDataset ''temp.h5'',
               ''num_rows'' \<mapsto> VInt r, ''num_cols'' \<mapsto> VInt c),
      fs = [''temp.h5'' \<mapsto> H5 (Some (Some u))],
      conn = Disconnected, hist = [EvDownload], fig = []\<rparr>"
  by (simp add: loaded_def load_cell_fresh)

lemma loaded_demo:
  "loaded demo_externals names =
     \<lparr>ns = names(''url'' \<mapsto> VStr url_literal, ''h5_path'' \<mapsto> VStr ''temp.h5'',
               ''_'' \<mapsto> VStr ''temp.h5'', ''h5_file'' \<mapsto> VFile ''temp.h5'',
               ''h5_meas_grp'' \<mapsto> VGroup ''temp.h5'', ''h5_main'' \<mapsto> VDataset ''temp.h5'',
               ''num_rows'' \<mapsto> VInt 3, ''num_cols'' \<mapsto> VInt 1),
      fs = [''temp.h5'' \<mapsto> demo_file],
      conn = Disconnected, hist = [EvDownload], fig = []\<rparr>"
  by (simp add: loaded_state [where r = 3 and c = 1] demo_externals_def demo_file_def)

lemma loaded_flat:
  "loaded flat_externals names =
     \<lparr>ns = names(''url'' \<mapsto> VStr url_literal, ''h5_path'' \<mapsto> VStr ''temp.h5'',
               ''_'' \<mapsto> VStr ''temp.h5'', ''h5_file'' \<mapsto> VFile ''temp.h5'',
               ''h5_meas_grp'' \<mapsto> VGroup ''temp.h5'', ''h5_main'' \<mapsto> VDataset ''temp.h5'',
               ''num_rows'' \<mapsto> VInt 136, ''num_cols'' \<mapsto> VInt 1),
      fs = [''temp.h5'' \<mapsto> tall_file],
      conn = Disconnected, hist = [EvDownload], fig = []\<rparr>"
  by (simp add: loaded_state [where r = 136 and c = 1] flat_externals_def demo_externals_def
      tall_file_def)

lemma demo_externals_sel:
  "find_all_peaks demo_externals = (\<lambda>v wb n. Inr [4])"
  "clock demo_externals = (\<lambda>h. real (length h))"
  "new_client demo_externals = None"
  "client_scatter demo_externals = (\<lambda>d. Inr (VFuture 0))"
  "client_map demo_externals = (\<lambda>d a k. Inr (VFutures [1]))"
  "client_gather demo_externals = (\<lambda>l. Inr (VResults [[4]]))"
  "client_ncores demo_externals = Inr (VCores [(''worker'', 4)])"
  "client_close demo_externals = None"
  "py_str demo_externals = (\<lambda>v. ''object'')"
  by (simp_all add: demo_externals_def)

subsection \<open>The demonstration cell\<close>

text \<open>
  C10. The demonstration cell indexes the first element of the detector's answer
  unconditionally: whenever the cell gets as far as the detector (the dataset is open, the
  chosen pixel \<open>25 + 110 * num_cols\<close> exists) and the detector returns no peak for that
  pixel, the cell raises \<open>IndexError\<close> and does not complete.
\<close>

theorem pixel_cell_no_peak_raises:
  "ns w ''h5_main'' = Some (VDataset p) \<Longrightarrow>
   ns w ''num_cols'' = Some (VInt n) \<Longrightarrow>
   dataset_at w p = Inr u \<Longrightarrow>
   py_index (main_data u) (25 + 110 * n) = Inr r \<Longrightarrow>
   find_all_peaks X r [20, 60] 30 = Inr [] \<Longrightarrow>
   fst (pixel_cell X w) = Some IndexError"
  by (simp add: pixel_cell_def pixel_ind_stmt_def spectra_stmt_def peak_inds_stmt_def
      subplots_stmt_def scatter_spectra_stmt_def axvline_stmt_def stmt_defs as_defs)

theorem pixel_cell_no_peak_raises_witness:
  "ns (loaded flat_externals Map.empty) ''h5_main'' = Some (VDataset ''temp.h5'') \<and>
   ns (loaded flat_externals Map.empty) ''num_cols'' = Some (VInt 1) \<and>
   dataset_at (loaded flat_externals Map.empty) ''temp.h5'' =
     Inr \<lparr>pos_dim_sizes = [136, 1], main_data = replicate 136 [0, 2, 1]\<rparr> \<and>
   py_index (replicate 136 [0, 2, 1 :: int]) (25 + 110 * 1) = Inr [0, 2, 1] \<and>
   find_all_peaks flat_externals [0, 2, 1] [20, 60] 30 = Inr [] \<and>
   fst (pixel_cell flat_externals (loaded flat_externals Map.empty)) = Some IndexError"
proof -
  let ?w = "loaded flat_externals Map.empty"
  let ?u = "\<lparr>pos_dim_sizes = [136, 1], main_data = replicate 136 [0, 2, 1 :: int]\<rparr>"
  have h1: "ns ?w ''h5_main'' = Some (VDataset ''temp.h5'')"
    by (simp add: loaded_flat)
  have h2: "ns ?w ''num_cols'' = Some (VInt 1)"
    by (simp add: loaded_flat)
  have h3: "dataset_at ?w ''temp.h5'' = Inr ?u"
    by (simp add: loaded_flat dataset_at_def tall_file_def)
  have h4: "py_index (main_data ?u) (25 + 110 * 1) = Inr [0, 2, 1]"
    by (simp add: py_index_def)
  have h5: "find_all_peaks flat_externals [0, 2, 1] [20, 60] 30 = Inr []"
    by (simp add: flat_externals_def)
  from pixel_cell_no_peak_raises [OF h1 h2 h3 h4 h5] h1 h2 h3 h4 h5
  show ?thesis by simp
qed

subsection \<open>Loading the dataset\<close>

lemma cleanup_removes:
  "fst (cleanup w) = None \<and> fs (snd (cleanup w)) ''temp.h5'' = None"
  by (simp add: cleanup_def remove_stale_def stmt_defs as_defs)

lemma cleanup_state:
  "cleanup w = (None, w1) \<Longrightarrow>
     fs w1 ''temp.h5'' = None \<and> ns w1 ''url'' = Some (VStr url_literal) \<and>
     ns w1 ''h5_path'' = Some (VStr ''temp.h5'')"
  by (auto simp: cleanup_def remove_stale_def stmt_defs as_defs split: if_splits)

lemma open_fresh:
  assumes "exec (open_stmts X) w1 = (None, w')"
    and "fs w1 ''temp.h5'' = None"
    and "ns w1 ''url'' = Some (VStr url_literal)"
    and "ns w1 ''h5_path'' = Some (VStr ''temp.h5'')"
  shows "\<exists>u. fetch X url_literal = Some (H5 (Some (Some u))) \<and>
     fs w' ''temp.h5'' = Some (H5 (Some (Some u))) \<and>
     ns w' ''h5_main'' = Some (VDataset ''temp.h5'') \<and>
     read_all w' = Inr (main_data u)"
  using assms
  by (auto simp: open_stmts_def download_stmt_def wget_download_def open_stmt_def
      group_stmt_def main_stmt_def dims_stmt_def dataset_at_def stmt_defs as_defs
      split: option.splits content.splits list.splits sum.splits)

text \<open>
  C8. Whatever the working directory holds, after the clean-up statements of the loading
  cell no file \<open>temp.h5\<close> exists; and when the cell completes, \<open>temp.h5\<close> holds exactly
  what the URL served, \<open>h5_main\<close> is a handle on it, and reading the dataset through the
  handle yields the rows just fetched.
\<close>

theorem load_cell_reads_fresh_download:
  "(fst (cleanup w) = None \<and> fs (snd (cleanup w)) ''temp.h5'' = None) \<and>
   (load_cell X w = (None, w') \<longrightarrow>
      (\<exists>u. fetch X url_literal = Some (H5 (Some (Some u))) \<and>
           fs w' ''temp.h5'' = Some (H5 (Some (Some u))) \<and>
           ns w' ''h5_main'' = Some (VDataset ''temp.h5'') \<and>
           read_all w' = Inr (main_data u)))"
proof (intro conjI impI)
  show "fst (cleanup w) = None" by (simp add: cleanup_removes)
  show "fs (snd (cleanup w)) ''temp.h5'' = None" by (simp add: cleanup_removes)
next
  assume run: "load_cell X w = (None, w')"
  obtain w1 where w1: "cleanup w = (None, w1)"
    using cleanup_removes [of w] by (cases "cleanup w") auto
  with run have rest: "exec (open_stmts X) w1 = (None, w')"
    by (simp add: load_cell_def exec.simps(2))
  from cleanup_state [OF w1] open_fresh [OF rest]
  show "\<exists>u. fetch X url_literal = Some (H5 (Some (Some u))) \<and>
      fs w' ''temp.h5'' = Some (H5 (Some (Some u))) \<and>
      ns w' ''h5_main'' = Some (VDataset ''temp.h5'') \<and>
      read_all w' = Inr (main_data u)"
    by blast
qed

theorem load_cell_reads_fresh_download_witness:
  "stale_dir ''temp.h5'' \<noteq> None \<and>
   load_cell demo_externals (fresh Map.empty stale_dir) =
     (None, snd (load_cell demo_externals (fresh Map.empty stale_dir))) \<and>
   fs (snd (load_cell demo_externals (fresh Map.empty stale_dir))) ''temp.h5'' = Some demo_file \<and>
   read_all (snd (load_cell demo_externals (fresh Map.empty stale_dir))) = Inr demo_rows"
proof -
  let ?w = "fresh Map.empty stale_dir"
  have ok: "fst (load_cell demo_externals ?w) = None"
    by (simp add: load_cell_def cleanup_def open_stmts_def fresh_def stale_dir_def
        remove_stale_def download_stmt_def wget_download_def open_stmt_def group_stmt_def
        main_stmt_def dims_stmt_def dataset_at_def stmt_defs as_defs demo_externals_def
        demo_file_def)
  then have run: "load_cell demo_externals ?w = (None, snd (load_cell demo_externals ?w))"
    by (metis prod.collapse)
  have served: "fetch demo_externals url_literal = Some demo_file"
    by (simp add: demo_externals_def)
  from load_cell_reads_fresh_download [of ?w demo_externals "snd (load_cell demo_externals ?w)"] run
  obtain u where u: "fetch demo_externals url_literal = Some (H5 (Some (Some u)))"
      "fs (snd (load_cell demo_externals ?w)) ''temp.h5'' = Some (H5 (Some (Some u)))"
      "read_all (snd (load_cell demo_externals ?w)) = Inr (main_data u)"
    by blast
  from u(1) served have "main_data u = demo_rows"
    by (auto simp: demo_file_def)
  with u served run show ?thesis
    by (simp add: stale_dir_def)
qed

subsection \<open>Reading a run backwards\<close>

lemma lookup_Inr: "lookup w x = Inr v \<longleftrightarrow> ns w x = Some v"
  by (simp add: lookup_def split: option.splits)

lemma lookup_Inl: "lookup w x = Inl e \<longleftrightarrow> ns w x = None \<and> e = NameError x"
  by (auto simp: lookup_def split: option.splits)

lemma as_Inr:
  "as_int v = Inr i \<longleftrightarrow> v = VInt i"
  "as_float v = Inr t \<longleftrightarrow> v = VFloat t"
  "as_str v = Inr s \<longleftrightarrow> v = VStr s"
  "as_row v = Inr r \<longleftrightarrow> v = VRow r"
  "as_data v = Inr d \<longleftrightarrow> v = VData d"
  "as_peaks v = Inr ps \<longleftrightarrow> v = VPeaks ps"
  "as_results v = Inr rs \<longleftrightarrow> v = VResults rs"
  "as_args v = Inr a \<longleftrightarrow> v = VArgs a"
  "as_kwargs v = Inr k \<longleftrightarrow> v = VKwargs k"
  "as_dataset v = Inr p \<longleftrightarrow> v = VDataset p"
  "as_client v = Inr u \<longleftrightarrow> v = VClient"
  by (simp_all add: as_defs split: val.splits)

lemma assign_sel [simp]:
  "ns (assign x v w) = (ns w)(x \<mapsto> v)"
  "fs (assign x v w) = fs w"
  "conn (assign x v w) = conn w"
  "hist (assign x v w) = hist w"
  "fig (assign x v w) = fig w"
  by (simp_all add: assign_def)

lemma record_event_sel [simp]:
  "ns (record_event ev w) = ns w"
  "fs (record_event ev w) = fs w"
  "conn (record_event ev w) = conn w"
  "hist (record_event ev w) = hist w @ [ev]"
  "fig (record_event ev w) = fig w"
  by (simp_all add: record_event_def)

lemma read_all_frame:
  "ns w2 ''h5_main'' = ns w ''h5_main'' \<Longrightarrow> fs w2 = fs w \<Longrightarrow> read_all w2 = read_all w"
  by (simp add: read_all_def lookup_def dataset_at_def)

lemma read_all_after_start [simp]:
  "read_all (assign ''start'' v (record_event ev w)) = read_all w"
  by (rule read_all_frame) simp_all

lemma for_stmt_None:
  "for_stmt X w = (None, w') \<longleftrightarrow>
     (\<exists>rows. ns w ''raw_data'' = Some (VData rows) \<and> for_vector X rows w = (None, w'))"
  by (auto simp: for_stmt_def andthen_def lookup_def as_data_def
      split: sum.splits option.splits val.splits)

lemma elapsed_stmt_Some:
  "elapsed_stmt X t w = (Some e, w') \<longleftrightarrow>
     w' = w \<and>
     (ns w ''start'' = None \<and> e = NameError ''start'' \<or>
      (\<exists>v. ns w ''start'' = Some v \<and> (\<forall>s. v \<noteq> VFloat s) \<and> e = TypeError))"
  by (auto simp: elapsed_stmt_def atomic_def andthen_def lookup_def as_float_def
      split: option.splits val.splits)

lemma copy_stmt_Some:
  "copy_stmt x y w = (Some e, w') \<longleftrightarrow> w' = w \<and> ns w y = None \<and> e = NameError y"
  by (auto simp: copy_stmt_def atomic_def andthen_def lookup_def split: option.splits)

lemma elapsed_stmt_None:
  "elapsed_stmt X t w = (None, w') \<longleftrightarrow>
     (\<exists>s. ns w ''start'' = Some (VFloat s) \<and>
          w' = assign t (VFloat (clock X (hist w) - s)) (record_event EvTime w))"
  by (auto simp: elapsed_stmt_def atomic_None andthen_Inr lookup_Inr as_Inr)

lemma copy_stmt_None:
  "copy_stmt x y w = (None, w') \<longleftrightarrow> (\<exists>v. ns w y = Some v \<and> w' = assign x v w)"
  by (auto simp: copy_stmt_def atomic_None andthen_Inr lookup_Inr)

lemmas unwind =
  exec_Cons_None atomic_None andthen_Inr lookup_Inr as_Inr for_stmt_None
  start_stmt_def read_all_stmt_def assign_const_def elapsed_stmt_None copy_stmt_None

subsection \<open>The serial loop\<close>

lemma for_vector_frame:
  "fs (snd (for_vector X rows w)) = fs w \<and>
   conn (snd (for_vector X rows w)) = conn w \<and>
   fig (snd (for_vector X rows w)) = fig w \<and>
   (x \<noteq> ''vector'' \<longrightarrow> x \<noteq> ''serial_results'' \<longrightarrow> ns (snd (for_vector X rows w)) x = ns w x)"
proof (induction rows arbitrary: w)
  case Nil
  show ?case by simp
next
  case (Cons v vs)
  show ?case
    by (auto simp: Cons.IH Let_def andthen_def lookup_def as_defs
        split: sum.splits option.splits val.splits)
qed

lemma for_vector_completes:
  "for_vector X rows w = (None, w') \<Longrightarrow> ns w ''serial_results'' = Some (VResults acc) \<Longrightarrow>
     hist w' = hist w @ replicate (length rows) EvDetect \<and>
     (\<exists>ps. list_all2 (\<lambda>v p. find_all_peaks X v [20, 60] 30 = Inr p) rows ps \<and>
           ns w' ''serial_results'' = Some (VResults (acc @ ps)))"
proof (induction rows arbitrary: w acc)
  case Nil
  then show ?case by simp
next
  case (Cons v vs)
  let ?w1 = "assign ''vector'' (VRow v) w"
  from Cons.prems obtain p where p: "find_all_peaks X v [20, 60] 30 = Inr p"
    and rest: "for_vector X vs
        (assign ''serial_results'' (VResults (acc @ [p])) (record_event EvDetect ?w1)) = (None, w')"
    by (auto simp: Let_def andthen_def lookup_def as_defs split: sum.splits)
  let ?w2 = "assign ''serial_results'' (VResults (acc @ [p])) (record_event EvDetect ?w1)"
  have bound: "ns ?w2 ''serial_results'' = Some (VResults (acc @ [p]))"
    by simp
  from Cons.IH [OF rest bound] obtain ps where
    h: "hist w' = hist ?w2 @ replicate (length vs) EvDetect" and
    ps: "list_all2 (\<lambda>v p. find_all_peaks X v [20, 60] 30 = Inr p) vs ps" and
    r: "ns w' ''serial_results'' = Some (VResults ((acc @ [p]) @ ps))"
    by blast
  from h have "hist w' = hist w @ replicate (length (v # vs)) EvDetect"
    by (simp add: replicate_append_same [symmetric])
  moreover from p ps have "list_all2 (\<lambda>v p. find_all_peaks X v [20, 60] 30 = Inr p) (v # vs) (p # ps)"
    by simp
  moreover from r have "ns w' ''serial_results'' = Some (VResults (acc @ p # ps))"
    by simp
  ultimately show ?case by blast
qed

subsection \<open>What a completed strategy cell leaves\<close>

lemma call_detector_literal:
  "call_detector X [[20, 60]] [(''num_steps'', 30)] = (\<lambda>v. find_all_peaks X v [20, 60] 30)"
  by (rule ext) (simp add: call_detector_def)

lemma serial_cell_completes:
  assumes "serial_cell X w = (None, w')"
  shows "\<exists>rows ps. read_all w = Inr rows \<and>
     list_all2 (\<lambda>v p. find_all_peaks X v [20, 60] 30 = Inr p) rows ps \<and>
     ns w' ''raw_data'' = Some (VData rows) \<and>
     ns w' ''serial_results'' = Some (VResults ps) \<and>
     ns w' ''core_serial'' = Some (VInt 1) \<and>
     hist w' = hist w @ [EvTime, EvReadAll] @ replicate (length rows) EvDetect @ [EvTime] \<and>
     ns w' ''time_serial'' =
       Some (VFloat (clock X (hist w @ [EvTime, EvReadAll] @ replicate (length rows) EvDetect)
                     - clock X (hist w)))"
proof -
  let ?w1 = "assign ''start'' (VFloat (clock X (hist w))) (record_event EvTime w)"
  from assms obtain rows w4 where rows: "read_all w = Inr rows"
    and loop: "for_vector X rows
        (assign ''serial_results'' (VResults [])
          (assign ''raw_data'' (VData rows) (record_event EvReadAll ?w1))) = (None, w4)"
    and rest: "exec [elapsed_stmt X ''time_serial'', assign_const ''core_serial'' (VInt 1)] w4 = (None, w')"
    unfolding serial_cell_def by (auto simp: unwind)
  let ?w3 = "assign ''serial_results'' (VResults [])
          (assign ''raw_data'' (VData rows) (record_event EvReadAll ?w1))"
  have "ns ?w3 ''serial_results'' = Some (VResults [])"
    by simp
  from for_vector_completes [OF loop this] obtain ps where
    h4: "hist w4 = hist ?w3 @ replicate (length rows) EvDetect" and
    ps: "list_all2 (\<lambda>v p. find_all_peaks X v [20, 60] 30 = Inr p) rows ps" and
    r4: "ns w4 ''serial_results'' = Some (VResults ps)"
    by auto
  from for_vector_frame [of X rows ?w3 "''start''"] loop
  have start4: "ns w4 ''start'' = Some (VFloat (clock X (hist w)))"
    by simp
  from for_vector_frame [of X rows ?w3 "''raw_data''"] loop
  have raw4: "ns w4 ''raw_data'' = Some (VData rows)"
    by simp
  from rest start4 have w': "w' = assign ''core_serial'' (VInt 1)
      (assign ''time_serial'' (VFloat (clock X (hist w4) - clock X (hist w))) (record_event EvTime w4))"
    by (auto simp: unwind)
  from h4 have h4': "hist w4 = hist w @ [EvTime, EvReadAll] @ replicate (length rows) EvDetect"
    by simp
  from w' h4' r4 raw4 ps rows show ?thesis
    by auto
qed

lemma parallel_cell_completes:
  assumes "parallel_cell X w = (None, w')"
  shows "\<exists>rows rs. read_all w = Inr rows \<and>
     worker (\<lambda>v. find_all_peaks X v [20, 60] 30) 0 rows = Inr rs \<and>
     ns w' ''parallel_results'' = Some (VResults rs) \<and>
     ns w' ''cores_parallel'' = Some (VInt 3) \<and>
     hist w' = hist w @ [EvTime, EvReadAll, EvParallel, EvTime] \<and>
     ns w' ''time_parallel'' =
       Some (VFloat (clock X (hist w @ [EvTime, EvReadAll, EvParallel]) - clock X (hist w)))"
  using assms unfolding parallel_cell_def
  by (auto simp: unwind parallel_stmt_def call_detector_literal parallel_compute_rowwise)

lemma dask_cell_completes:
  assumes "dask_cell X w = (None, w')"
  shows "conn w' = Disconnected \<and>
     hist w' = hist w @ [EvTime, EvReadAll, EvConnect, EvScatter, EvMap, EvGather, EvNCores,
                         EvClose, EvTime] \<and>
     ns w' ''time_dask'' =
       Some (VFloat (clock X (hist w @ [EvTime, EvReadAll, EvConnect, EvScatter, EvMap, EvGather,
                                        EvNCores, EvClose]) - clock X (hist w))) \<and>
     ns w ''raw_data_list'' \<noteq> None"
  using assms unfolding dask_cell_def
  by (auto simp: unwind client_stmt_def scatter_stmt_def map_stmt_def gather_stmt_def
      ncores_stmt_def close_stmt_def split: option.splits)

subsection \<open>The measurement window\<close>

text \<open>
  C9. In each strategy cell the clock is read first, before \<open>h5_main[()]\<close>, and last:
  when the cell completes, the calls made since it began are the clock reading, the read
  of the whole dataset, the strategy's own calls (for the Dask cell: creating the client,
  scatter, map, gather, ncores and closing the client), and the closing clock reading; the
  elapsed time the cell records is the clock's advance over all of them, the dataset read
  included.
\<close>

theorem elapsed_time_includes_dataset_read:
  "(serial_cell X w = (None, w') \<longrightarrow>
      (\<exists>rows. read_all w = Inr rows \<and> ns w' ''raw_data'' = Some (VData rows) \<and>
         hist w' = hist w @ [EvTime, EvReadAll] @ replicate (length rows) EvDetect @ [EvTime] \<and>
         ns w' ''time_serial'' =
           Some (VFloat (clock X (hist w @ [EvTime, EvReadAll] @ replicate (length rows) EvDetect)
                         - clock X (hist w))))) \<and>
   (parallel_cell X w = (None, w') \<longrightarrow>
      hist w' = hist w @ [EvTime, EvReadAll, EvParallel, EvTime] \<and>
      ns w' ''time_parallel'' =
        Some (VFloat (clock X (hist w @ [EvTime, EvReadAll, EvParallel]) - clock X (hist w)))) \<and>
   (dask_cell X w = (None, w') \<longrightarrow>
      hist w' = hist w @ [EvTime, EvReadAll, EvConnect, EvScatter, EvMap, EvGather, EvNCores,
                          EvClose, EvTime] \<and>
      ns w' ''time_dask'' =
        Some (VFloat (clock X (hist w @ [EvTime, EvReadAll, EvConnect, EvScatter, EvMap,
                                         EvGather, EvNCores, EvClose]) - clock X (hist w))))"
proof (intro conjI impI)
  assume "serial_cell X w = (None, w')"
  from serial_cell_completes [OF this]
  show "\<exists>rows. read_all w = Inr rows \<and> ns w' ''raw_data'' = Some (VData rows) \<and>
         hist w' = hist w @ [EvTime, EvReadAll] @ replicate (length rows) EvDetect @ [EvTime] \<and>
         ns w' ''time_serial'' =
           Some (VFloat (clock X (hist w @ [EvTime, EvReadAll] @ replicate (length rows) EvDetect)
                         - clock X (hist w)))"
    by blast
next
  assume "parallel_cell X w = (None, w')"
  from parallel_cell_completes [OF this]
  show "hist w' = hist w @ [EvTime, EvReadAll, EvParallel, EvTime]"
    and "ns w' ''time_parallel'' =
        Some (VFloat (clock X (hist w @ [EvTime, EvReadAll, EvParallel]) - clock X (hist w)))"
    by blast+
next
  assume "dask_cell X w = (None, w')"
  from dask_cell_completes [OF this]
  show "hist w' = hist w @ [EvTime, EvReadAll, EvConnect, EvScatter, EvMap, EvGather, EvNCores,
                          EvClose, EvTime]"
    and "ns w' ''time_dask'' =
        Some (VFloat (clock X (hist w @ [EvTime, EvReadAll, EvConnect, EvScatter, EvMap,
                                         EvGather, EvNCores, EvClose]) - clock X (hist w)))"
    by blast+
qed

lemmas cell_defs =
  serial_cell_def parallel_cell_def dask_cell_def plot_cell_def for_stmt_def
  parallel_stmt_def client_stmt_def scatter_stmt_def map_stmt_def gather_stmt_def
  ncores_stmt_def close_stmt_def scatter_point_stmt_def scatter_raises_def is_number_def
  is_dict_def savefig_stmt_def subplots_stmt_def
  png_format_def call_detector_literal parallel_compute_rowwise dataset_at_def

theorem elapsed_time_includes_dataset_read_witness:
  "fst (serial_cell demo_externals (loaded demo_externals supplied)) = None \<and>
   ns (snd (serial_cell demo_externals (loaded demo_externals supplied))) ''time_serial'' =
     Some (VFloat 5) \<and>
   fst (parallel_cell demo_externals (loaded demo_externals supplied)) = None \<and>
   ns (snd (parallel_cell demo_externals (loaded demo_externals supplied))) ''time_parallel'' =
     Some (VFloat 3) \<and>
   fst (dask_cell demo_externals (loaded demo_externals supplied)) = None \<and>
   ns (snd (dask_cell demo_externals (loaded demo_externals supplied))) ''time_dask'' =
     Some (VFloat 8)"
proof -
  let ?X = "demo_externals"
  let ?w = "loaded demo_externals supplied"
  have clock: "clock ?X h = real (length h)" for h
    by (simp add: demo_externals_sel)
  have h: "hist ?w = [EvDownload]"
    by (simp add: loaded_demo)
  have rows: "read_all ?w = Inr demo_rows"
    by (simp add: loaded_demo read_all_def lookup_def andthen_def as_defs dataset_at_def
        demo_file_def)
  have s: "fst (serial_cell ?X ?w) = None"
    by (simp add: loaded_demo cell_defs stmt_defs as_defs demo_file_def demo_rows_def
        demo_externals_sel)
  have p: "fst (parallel_cell ?X ?w) = None"
    by (simp add: loaded_demo cell_defs stmt_defs as_defs demo_file_def demo_rows_def
        demo_externals_sel)
  have d: "fst (dask_cell ?X ?w) = None"
    by (simp add: loaded_demo cell_defs stmt_defs as_defs demo_file_def demo_rows_def
        demo_externals_sel supplied_def)
  from s have "serial_cell ?X ?w = (None, snd (serial_cell ?X ?w))"
    by (metis prod.collapse)
  with elapsed_time_includes_dataset_read [of ?X ?w "snd (serial_cell ?X ?w)"] rows
  have ts: "ns (snd (serial_cell ?X ?w)) ''time_serial'' = Some (VFloat 5)"
    by (auto simp: clock h demo_rows_def)
  from p have "parallel_cell ?X ?w = (None, snd (parallel_cell ?X ?w))"
    by (metis prod.collapse)
  with elapsed_time_includes_dataset_read [of ?X ?w "snd (parallel_cell ?X ?w)"]
  have tp: "ns (snd (parallel_cell ?X ?w)) ''time_parallel'' = Some (VFloat 3)"
    by (simp add: clock h)
  from d have "dask_cell ?X ?w = (None, snd (dask_cell ?X ?w))"
    by (metis prod.collapse)
  with elapsed_time_includes_dataset_read [of ?X ?w "snd (dask_cell ?X ?w)"]
  have td: "ns (snd (dask_cell ?X ?w)) ''time_dask'' = Some (VFloat 8)"
    by (simp add: clock h)
  from s p d ts tp td show ?thesis by simp
qed

subsection \<open>The cluster connection\<close>

lemma atomic_Some_same: "atomic f w = (Some e, w') \<Longrightarrow> w' = w"
  by (simp add: atomic_Some)

lemma since_append [simp]: "since w (w'\<lparr>hist := hist w @ evs\<rparr>) = evs"
  by (simp add: since_def)

lemma since_hist: "hist w' = hist w @ evs \<Longrightarrow> since w w' = evs"
  by (simp add: since_def)

lemma client_stmt_None:
  "client_stmt X w = (None, w') \<longleftrightarrow>
     new_client X = None \<and>
     w' = assign ''client'' VClient (record_event EvConnect (w\<lparr>conn := Connected\<rparr>))"
  by (auto simp: client_stmt_def atomic_def split: option.splits)

lemma client_stmt_Some:
  "client_stmt X w = (Some e, w') \<longleftrightarrow> new_client X = Some e \<and> w' = w"
  by (auto simp: client_stmt_def atomic_def split: option.splits)

lemma close_stmt_None:
  "close_stmt X w = (None, w') \<longleftrightarrow>
     ns w ''client'' = Some VClient \<and> client_close X = None \<and>
     w' = record_event EvClose (w\<lparr>conn := Disconnected\<rparr>)"
  by (auto simp: close_stmt_def atomic_def andthen_def lookup_def as_client_def
      split: option.splits val.splits)

lemma close_stmt_Some:
  "close_stmt X w = (Some e, w') \<longleftrightarrow>
     w' = w \<and>
     (ns w ''client'' = None \<and> e = NameError ''client'' \<or>
      (\<exists>v. ns w ''client'' = Some v \<and> v \<noteq> VClient \<and> e = AttributeError) \<or>
      ns w ''client'' = Some VClient \<and> client_close X = Some e)"
  by (auto simp: close_stmt_def atomic_def andthen_def lookup_def as_client_def
      split: option.splits val.splits)

lemmas unwind_dask =
  exec_Cons_None atomic_None andthen_Inr lookup_Inr as_Inr
  start_stmt_def read_all_stmt_def assign_const_def
  client_stmt_None close_stmt_None scatter_stmt_def map_stmt_def gather_stmt_def
  ncores_stmt_def

lemma dask_cell_raises:
  assumes "dask_cell X w = (Some e, w')"
  shows "EvClose \<notin> set (since w w') \<and>
     (EvConnect \<in> set (since w w') \<longrightarrow> conn w' \<noteq> Disconnected) \<and>
     (EvNCores \<in> set (since w w') \<longrightarrow> client_close X = Some e \<and> ns w' ''dask_results'' \<noteq> None) \<and>
     ns w' ''time_dask'' = ns w ''time_dask''"
  using assms unfolding dask_cell_def
  by (auto simp: exec_Cons_Some unwind_dask atomic_Some client_stmt_Some close_stmt_Some
      elapsed_stmt_Some since_def)

lemmas eval_defs = loaded_demo cell_defs stmt_defs as_defs demo_externals_sel

text \<open>
  C2 as stated fails. In the notebook as it is, task submission raises \<open>NameError\<close> and
  the connection is left in \<open>DataScattered\<close>; when scattering fails it is left
  \<open>Connected\<close>; and with \<open>raw_data_list\<close> bound by the caller and gathering failing it is
  left \<open>TasksSubmitted\<close>. In none of these runs is the client closed.
\<close>

theorem dask_cell_leaves_connection_open:
  "fst (dask_cell demo_externals (loaded demo_externals Map.empty)) =
     Some (NameError ''raw_data_list'') \<and>
   conn (snd (dask_cell demo_externals (loaded demo_externals Map.empty))) = DataScattered \<and>
   fst (dask_cell scatter_fails (loaded demo_externals Map.empty)) =
     Some (Raised ''scatter refused'') \<and>
   conn (snd (dask_cell scatter_fails (loaded demo_externals Map.empty))) = Connected \<and>
   fst (dask_cell gather_fails (loaded demo_externals supplied)) = Some (Raised ''worker lost'') \<and>
   conn (snd (dask_cell gather_fails (loaded demo_externals supplied))) = TasksSubmitted"
proof -
  have a: "fst (dask_cell demo_externals (loaded demo_externals Map.empty)) =
      Some (NameError ''raw_data_list'')"
    by (simp add: eval_defs demo_file_def)
  have a': "conn (snd (dask_cell demo_externals (loaded demo_externals Map.empty))) = DataScattered"
    by (simp add: eval_defs demo_file_def)
  have b: "fst (dask_cell scatter_fails (loaded demo_externals Map.empty)) =
      Some (Raised ''scatter refused'')"
    by (simp add: eval_defs demo_file_def scatter_fails_def)
  have b': "conn (snd (dask_cell scatter_fails (loaded demo_externals Map.empty))) = Connected"
    by (simp add: eval_defs demo_file_def scatter_fails_def)
  have c: "fst (dask_cell gather_fails (loaded demo_externals supplied)) =
      Some (Raised ''worker lost'')"
    by (simp add: eval_defs demo_file_def gather_fails_def supplied_def)
  have c': "conn (snd (dask_cell gather_fails (loaded demo_externals supplied))) = TasksSubmitted"
    by (simp add: eval_defs demo_file_def gather_fails_def supplied_def)
  from a a' b b' c c' show ?thesis by simp
qed

text \<open>
  C2, amended. The Dask cell has no guaranteed teardown. When the cell completes, the
  client has been closed and the connection is \<open>Disconnected\<close>. When the cell raises,
  \<open>client.close()\<close> has not completed; if the client had been created in this run the
  connection is left open (not \<open>Disconnected\<close>); a failure after \<open>client.ncores()\<close>
  is the failure of \<open>close\<close> itself, which is what the cell raises, with
  \<open>dask_results\<close> still bound; and \<open>time_dask\<close> is left as it was.
\<close>

theorem dask_cell_closes_only_on_completion:
  "(dask_cell X w = (None, w') \<longrightarrow> conn w' = Disconnected \<and> EvClose \<in> set (since w w')) \<and>
   (dask_cell X w = (Some e, w') \<longrightarrow>
      EvClose \<notin> set (since w w') \<and>
      (EvConnect \<in> set (since w w') \<longrightarrow> conn w' \<noteq> Disconnected) \<and>
      (EvNCores \<in> set (since w w') \<longrightarrow>
         client_close X = Some e \<and> ns w' ''dask_results'' \<noteq> None) \<and>
      ns w' ''time_dask'' = ns w ''time_dask'')"
proof (intro conjI impI)
  assume run: "dask_cell X w = (None, w')"
  from dask_cell_completes [OF run] show "conn w' = Disconnected" by simp
  from dask_cell_completes [OF run] show "EvClose \<in> set (since w w')"
    by (simp add: since_def)
next
  assume run: "dask_cell X w = (Some e, w')"
  from dask_cell_raises [OF run] show "EvClose \<notin> set (since w w')" by simp
  from dask_cell_raises [OF run] show "ns w' ''time_dask'' = ns w ''time_dask''" by simp
  {
    assume "EvConnect \<in> set (since w w')"
    with dask_cell_raises [OF run] show "conn w' \<noteq> Disconnected" by simp
  }
  {
    assume "EvNCores \<in> set (since w w')"
    with dask_cell_raises [OF run] show "client_close X = Some e"
      and "ns w' ''dask_results'' \<noteq> None" by simp_all
  }
qed

theorem dask_cell_closes_only_on_completion_witness:
  "fst (dask_cell demo_externals (loaded demo_externals supplied)) = None \<and>
   conn (snd (dask_cell demo_externals (loaded demo_externals supplied))) = Disconnected \<and>
   fst (dask_cell gather_fails (loaded demo_externals supplied)) = Some (Raised ''worker lost'') \<and>
   EvConnect \<in> set (since (loaded demo_externals supplied)
                      (snd (dask_cell gather_fails (loaded demo_externals supplied)))) \<and>
   conn (snd (dask_cell gather_fails (loaded demo_externals supplied))) \<noteq> Disconnected \<and>
   fst (dask_cell close_fails (loaded demo_externals supplied)) =
     Some (Raised ''close timed out'') \<and>
   EvNCores \<in> set (since (loaded demo_externals supplied)
                     (snd (dask_cell close_fails (loaded demo_externals supplied)))) \<and>
   ns (snd (dask_cell close_fails (loaded demo_externals supplied))) ''dask_results'' \<noteq> None"
proof -
  let ?w = "loaded demo_externals supplied"
  have a: "fst (dask_cell demo_externals ?w) = None"
    by (simp add: eval_defs demo_file_def supplied_def)
  then have "dask_cell demo_externals ?w = (None, snd (dask_cell demo_externals ?w))"
    by (metis prod.collapse)
  with dask_cell_closes_only_on_completion
    [of demo_externals ?w "snd (dask_cell demo_externals ?w)"]
  have a': "conn (snd (dask_cell demo_externals ?w)) = Disconnected"
    by simp
  have b: "fst (dask_cell gather_fails ?w) = Some (Raised ''worker lost'')"
    by (simp add: eval_defs demo_file_def supplied_def gather_fails_def)
  have b1: "EvConnect \<in> set (since ?w (snd (dask_cell gather_fails ?w)))"
    by (simp add: eval_defs demo_file_def supplied_def gather_fails_def since_def)
  from b have "dask_cell gather_fails ?w =
      (Some (Raised ''worker lost''), snd (dask_cell gather_fails ?w))"
    by (metis prod.collapse)
  with dask_cell_closes_only_on_completion
    [of gather_fails ?w "snd (dask_cell gather_fails ?w)" "Raised ''worker lost''"] b1
  have b': "conn (snd (dask_cell gather_fails ?w)) \<noteq> Disconnected"
    by simp
  have c: "fst (dask_cell close_fails ?w) = Some (Raised ''close timed out'')"
    by (simp add: eval_defs demo_file_def supplied_def close_fails_def)
  have c1: "EvNCores \<in> set (since ?w (snd (dask_cell close_fails ?w)))"
    by (simp add: eval_defs demo_file_def supplied_def close_fails_def since_def)
  from c have "dask_cell close_fails ?w =
      (Some (Raised ''close timed out''), snd (dask_cell close_fails ?w))"
    by (metis prod.collapse)
  with dask_cell_closes_only_on_completion
    [of close_fails ?w "snd (dask_cell close_fails ?w)" "Raised ''close timed out''"] c1
  have c': "ns (snd (dask_cell close_fails ?w)) ''dask_results'' \<noteq> None"
    by simp
  from a a' b b1 b' c c1 c' show ?thesis by simp
qed

subsection \<open>A strategy that fails\<close>

lemma exec_stops:
  "exec before w = (None, w1) \<Longrightarrow> c w1 = (Some e, w') \<Longrightarrow>
     exec (before @ c # after) w = (Some e, w')"
  by (simp add: exec_append exec.simps(2))

lemma for_stmt_keeps:
  assumes "for_stmt X w = (r, w')" and "x \<noteq> ''vector''" and "x \<noteq> ''serial_results''"
  shows "ns w' x = ns w x"
proof (cases "andthen (lookup w ''raw_data'') as_data")
  case (Inl e)
  with assms(1) show ?thesis by (simp add: for_stmt_def)
next
  case (Inr rows)
  with assms(1) have "w' = snd (for_vector X rows w)" by (simp add: for_stmt_def)
  with for_vector_frame [of X rows w x] assms(2,3) show ?thesis by simp
qed

lemma serial_cell_raises:
  assumes "serial_cell X w = (Some e, w')"
  shows "ns w' ''time_serial'' = ns w ''time_serial'' \<and> ns w' ''core_serial'' = ns w ''core_serial''"
proof -
  have keep: "ns w2 ''time_serial'' = ns w1 ''time_serial'' \<and> ns w2 ''core_serial'' = ns w1 ''core_serial''"
    if "for_stmt X w1 = (r, w2)" for r w1 w2
    using for_stmt_keeps [OF that] by simp
  from assms show ?thesis
    unfolding serial_cell_def
    by (auto simp: exec_Cons_Some exec_Cons_None atomic_None atomic_Some andthen_Inr lookup_Inr
        as_Inr start_stmt_def read_all_stmt_def assign_const_def elapsed_stmt_Some
        dest!: keep)
qed

lemma parallel_cell_raises:
  assumes "parallel_cell X w = (Some e, w')"
  shows "ns w' ''time_parallel'' = ns w ''time_parallel'' \<and>
     ns w' ''cores_parallel'' = ns w ''cores_parallel''"
  using assms unfolding parallel_cell_def
  by (auto simp: exec_Cons_Some unwind atomic_Some elapsed_stmt_Some copy_stmt_Some
      parallel_stmt_def)

subsection \<open>The plot cell\<close>

lemma scatter_point_None:
  "scatter_point_stmt X x y w = (None, w') \<longleftrightarrow>
     (\<exists>vx vy. ns w x = Some vx \<and> ns w y = Some vy \<and> scatter_raises X vx vy = None \<and>
        w' = w\<lparr>fig := fig w @ [Point vx vy]\<rparr>)"
  by (auto simp: scatter_point_stmt_def atomic_None andthen_Inr lookup_Inr split: option.splits)

lemma scatter_point_Some:
  "scatter_point_stmt X x y w = (Some e, w') \<Longrightarrow> w' = w"
  by (simp add: scatter_point_stmt_def atomic_Some)

lemma savefig_None:
  "savefig_stmt X w = (None, w') \<longleftrightarrow>
     (\<exists>v. ns w ''png_name'' = Some v \<and>
          w' = record_event EvSavefig (w\<lparr>fs := (fs w)(png_format X v \<mapsto> Image (fig w))\<rparr>))"
  by (auto simp: savefig_stmt_def atomic_None andthen_Inr lookup_Inr)

lemma savefig_Some:
  "savefig_stmt X w = (Some e, w') \<longleftrightarrow> w' = w \<and> ns w ''png_name'' = None \<and> e = NameError ''png_name''"
  by (auto simp: savefig_stmt_def atomic_def andthen_def lookup_def split: option.splits)

lemmas unwind_plot =
  exec_Cons_None atomic_None subplots_stmt_def scatter_point_None savefig_None

lemma plot_cell_completes:
  assumes "plot_cell X w = (None, w')"
  shows "\<exists>cs ts cp tp cd td name.
     ns w ''core_serial'' = Some cs \<and> ns w ''time_serial'' = Some ts \<and>
     ns w ''cores_parallel'' = Some cp \<and> ns w ''time_parallel'' = Some tp \<and>
     ns w ''cores_dask'' = Some cd \<and> ns w ''time_dask'' = Some td \<and>
     ns w ''png_name'' = Some name \<and>
     fs w' = (fs w)(png_format X name \<mapsto> Image [Point cs ts, Point cp tp, Point cd td])"
  using assms unfolding plot_cell_def
  by (auto simp: unwind_plot)

lemma plot_cell_raises:
  assumes "plot_cell X w = (Some e, w')"
  shows "fs w' = fs w"
proof -
  have keep: "fs w2 = fs w1" if "scatter_point_stmt X x y w1 = (r, w2)" for x y r w1 w2
  proof (cases r)
    case None
    with that show ?thesis by (auto simp: scatter_point_None)
  next
    case (Some e)
    with that scatter_point_Some [of X x y w1 e w2] show ?thesis by simp
  qed
  from assms show ?thesis
    unfolding plot_cell_def
    by (auto simp: exec_Cons_Some exec_Cons_None atomic_None atomic_Some subplots_stmt_def
        savefig_Some dest!: keep)
qed

lemma plot_cell_needs_names:
  assumes "ns w ''core_serial'' = None \<or> ns w ''time_serial'' = None \<or>
     ns w ''cores_parallel'' = None \<or> ns w ''time_parallel'' = None \<or>
     ns w ''cores_dask'' = None \<or> ns w ''time_dask'' = None \<or> ns w ''png_name'' = None"
  shows "fst (plot_cell X w) \<noteq> None"
proof
  assume "fst (plot_cell X w) = None"
  then have "plot_cell X w = (None, snd (plot_cell X w))"
    by (metis prod.collapse)
  from plot_cell_completes [OF this] assms show False
    by auto
qed

subsection \<open>The notebook as benchmark driver\<close>

lemma load_picky:
  "load_cell picky_externals (fresh names Map.empty) =
     (None,
      \<lparr>ns = names(''url'' \<mapsto> VStr url_literal, ''h5_path'' \<mapsto> VStr ''temp.h5'',
               ''_'' \<mapsto> VStr ''temp.h5'', ''h5_file'' \<mapsto> VFile ''temp.h5'',
               ''h5_meas_grp'' \<mapsto> VGroup ''temp.h5'', ''h5_main'' \<mapsto> VDataset ''temp.h5'',
               ''num_rows'' \<mapsto> VInt 136, ''num_cols'' \<mapsto> VInt 1),
       fs = [''temp.h5'' \<mapsto> picky_file],
       conn = Disconnected, hist = [EvDownload], fig = []\<rparr>)"
  by (simp add: load_cell_fresh [where r = 136 and c = 1] picky_externals_def picky_file_def)

lemma picky_sel:
  "find_all_peaks picky_externals =
     (\<lambda>v wb n. if v = [0, 9, 0] then Inr [1] else Inl (Raised ''no peak''))"
  "clock picky_externals = (\<lambda>h. real (length h))"
  "new_client picky_externals = None"
  "client_scatter picky_externals = (\<lambda>d. Inr (VFuture 0))"
  "client_map picky_externals = (\<lambda>d a k. Inr (VFutures [1]))"
  "client_gather picky_externals = (\<lambda>l. Inl (Raised ''no peak''))"
  "client_ncores picky_externals = Inr (VCores [(''worker'', 4)])"
  "client_close picky_externals = None"
  "py_str picky_externals = (\<lambda>v. ''object'')"
  by (simp_all add: picky_externals_def demo_externals_sel)

lemmas pixel_defs =
  pixel_cell_def pixel_ind_stmt_def spectra_stmt_def peak_inds_stmt_def
  scatter_spectra_stmt_def axvline_stmt_def set_ylim_stmt_def set_title_stmt_def py_index_def

lemma picky_pixel:
  "fst (exec [load_cell picky_externals, pixel_cell picky_externals] (fresh supplied Map.empty)) = None"
  by (simp add: load_picky pixel_defs subplots_stmt_def stmt_defs as_defs dataset_at_def
      picky_file_def picky_sel nth_append)

lemmas notebook_eval =
  run_all_def notebook_def strategy_cells_def load_picky pixel_defs cell_defs
  stmt_defs as_defs picky_file_def picky_sel nth_append supplied_def named_def

text \<open>
  C3 as stated fails. With a detector that raises on the first row, and even with the two
  unassigned names bound by the caller, "Run All" stops at the serial cell: no elapsed time
  (and no sentinel) is recorded for it, the other strategies never run and no image is
  written. Running every cell regardless in a kernel where the caller has bound
  \<open>png_name\<close>, the serial, the parallel and the Dask cell all raise, and the plot cell
  raises \<open>NameError\<close> at the first missing sample; again no image is written.
\<close>

theorem failed_strategy_stops_the_notebook:
  "fst (run_all picky_externals (fresh supplied Map.empty)) = Some (Raised ''no peak'') \<and>
   ns (snd (run_all picky_externals (fresh supplied Map.empty))) ''time_serial'' = None \<and>
   ns (snd (run_all picky_externals (fresh supplied Map.empty))) ''parallel_results'' = None \<and>
   ns (snd (run_all picky_externals (fresh supplied Map.empty))) ''dask_results'' = None \<and>
   fs (snd (run_all picky_externals (fresh supplied Map.empty))) ''benchmark.png'' = None \<and>
   map (\<lambda>r. r = None) (fst (run_each (notebook picky_externals) (fresh named Map.empty))) =
     [True, True, False, False, False, False] \<and>
   fst (run_each (notebook picky_externals) (fresh named Map.empty)) ! 2 =
     Some (Raised ''no peak'') \<and>
   fst (run_each (notebook picky_externals) (fresh named Map.empty)) ! 4 =
     Some (NameError ''raw_data_list'') \<and>
   fst (run_each (notebook picky_externals) (fresh named Map.empty)) ! 5 =
     Some (NameError ''core_serial'') \<and>
   ns (snd (run_each (notebook picky_externals) (fresh named Map.empty))) ''time_serial'' = None \<and>
   fs (snd (run_each (notebook picky_externals) (fresh named Map.empty))) ''benchmark.png'' = None"
proof -
  let ?w = "fresh supplied Map.empty :: int nb"
  let ?n = "fresh named Map.empty :: int nb"
  have a: "fst (run_all picky_externals ?w) = Some (Raised ''no peak'')"
    by (simp add: notebook_eval)
  have b: "ns (snd (run_all picky_externals ?w)) ''time_serial'' = None"
    by (simp add: notebook_eval)
  have c: "ns (snd (run_all picky_externals ?w)) ''parallel_results'' = None"
    by (simp add: notebook_eval)
  have d: "ns (snd (run_all picky_externals ?w)) ''dask_results'' = None"
    by (simp add: notebook_eval)
  have e: "fs (snd (run_all picky_externals ?w)) ''benchmark.png'' = None"
    by (simp add: notebook_eval)
  have f: "fst (run_each (notebook picky_externals) ?n) =
     [None, None, Some (Raised ''no peak''), Some (DetectionFailed 0),
      Some (NameError ''raw_data_list''), Some (NameError ''core_serial'')]"
    by (simp add: notebook_eval)
  have g: "ns (snd (run_each (notebook picky_externals) ?n)) ''time_serial'' = None"
    by (simp add: notebook_eval)
  have h: "fs (snd (run_each (notebook picky_externals) ?n)) ''benchmark.png'' = None"
    by (simp add: notebook_eval)
  from a b c d e g h show ?thesis by (simp add: f)
qed

text \<open>
  C3, amended. The notebook does not tolerate a failed strategy. A strategy cell that
  raises leaves its elapsed-time variable as it was, so no sample and no sentinel is
  recorded for it; a run of the notebook from top to bottom ends at the first cell that
  raises, in the state that cell left, so no later cell runs; the plot cell raises
  whenever the parallelism or the elapsed time of one of the three strategies, or
  \<open>png_name\<close>, is not bound; and whenever the plot cell raises it writes nothing.
\<close>

theorem failed_strategy_leaves_no_sample:
  "(serial_cell X w = (Some e, w') \<longrightarrow> ns w' ''time_serial'' = ns w ''time_serial'') \<and>
   (parallel_cell X w = (Some e, w') \<longrightarrow> ns w' ''time_parallel'' = ns w ''time_parallel'') \<and>
   (dask_cell X w = (Some e, w') \<longrightarrow> ns w' ''time_dask'' = ns w ''time_dask'') \<and>
   (notebook X = before @ c # after \<and> exec before w = (None, w1) \<and> c w1 = (Some e, w') \<longrightarrow>
      run_all X w = (Some e, w')) \<and>
   (ns w ''core_serial'' = None \<or> ns w ''time_serial'' = None \<or>
    ns w ''cores_parallel'' = None \<or> ns w ''time_parallel'' = None \<or>
    ns w ''cores_dask'' = None \<or> ns w ''time_dask'' = None \<or> ns w ''png_name'' = None \<longrightarrow>
      fst (plot_cell X w) \<noteq> None) \<and>
   (plot_cell X w = (Some e, w') \<longrightarrow> fs w' = fs w)"
proof (intro conjI impI)
  assume "serial_cell X w = (Some e, w')"
  from serial_cell_raises [OF this] show "ns w' ''time_serial'' = ns w ''time_serial''"
    by simp
next
  assume "parallel_cell X w = (Some e, w')"
  from parallel_cell_raises [OF this] show "ns w' ''time_parallel'' = ns w ''time_parallel''"
    by simp
next
  assume "dask_cell X w = (Some e, w')"
  from dask_cell_raises [OF this] show "ns w' ''time_dask'' = ns w ''time_dask''"
    by simp
next
  assume "notebook X = before @ c # after \<and> exec before w = (None, w1) \<and> c w1 = (Some e, w')"
  then show "run_all X w = (Some e, w')"
    by (simp add: run_all_def exec_stops)
next
  assume "ns w ''core_serial'' = None \<or> ns w ''time_serial'' = None \<or>
    ns w ''cores_parallel'' = None \<or> ns w ''time_parallel'' = None \<or>
    ns w ''cores_dask'' = None \<or> ns w ''time_dask'' = None \<or> ns w ''png_name'' = None"
  then show "fst (plot_cell X w) \<noteq> None"
    by (rule plot_cell_needs_names)
next
  assume "plot_cell X w = (Some e, w')"
  then show "fs w' = fs w"
    by (rule plot_cell_raises)
qed

theorem failed_strategy_leaves_no_sample_witness:
  "fst (serial_cell detector_fails (loaded demo_externals named)) = Some (Raised ''no peak'') \<and>
   ns (snd (serial_cell detector_fails (loaded demo_externals named))) ''time_serial'' = None \<and>
   fst (parallel_cell detector_fails (loaded demo_externals named)) \<noteq> None \<and>
   ns (snd (parallel_cell detector_fails (loaded demo_externals named))) ''time_parallel'' = None \<and>
   fst (dask_cell demo_externals (loaded demo_externals named)) =
     Some (NameError ''raw_data_list'') \<and>
   ns (snd (dask_cell demo_externals (loaded demo_externals named))) ''time_dask'' = None \<and>
   fst (exec [load_cell picky_externals, pixel_cell picky_externals] (fresh supplied Map.empty)) = None \<and>
   fst (run_all picky_externals (fresh supplied Map.empty)) = Some (Raised ''no peak'') \<and>
   ns (loaded demo_externals named) ''core_serial'' = None \<and>
   fst (plot_cell demo_externals (loaded demo_externals named)) =
     Some (NameError ''core_serial'') \<and>
   fs (snd (plot_cell demo_externals (loaded demo_externals named))) =
     fs (loaded demo_externals named)"
proof -
  let ?L = "loaded demo_externals named"
  let ?F = "fresh supplied Map.empty :: int nb"
  let ?before = "[load_cell picky_externals, pixel_cell picky_externals]"
  let ?after = "[parallel_cell picky_externals, dask_cell picky_externals, plot_cell picky_externals]"
  let ?P = "snd (exec ?before ?F)"
  note main = failed_strategy_leaves_no_sample
  txt \<open>the serial cell fails\<close>
  have s: "fst (serial_cell detector_fails ?L) = Some (Raised ''no peak'')"
    by (simp add: eval_defs demo_file_def demo_rows_def detector_fails_def)
  then have "serial_cell detector_fails ?L =
      (Some (Raised ''no peak''), snd (serial_cell detector_fails ?L))"
    by (metis prod.collapse)
  with main [where X = detector_fails and w = ?L and e = "Raised ''no peak''"
      and w' = "snd (serial_cell detector_fails ?L)"]
  have s': "ns (snd (serial_cell detector_fails ?L)) ''time_serial'' = None"
    by (simp add: loaded_demo named_def)
  txt \<open>the parallel cell fails\<close>
  have p: "fst (parallel_cell detector_fails ?L) = Some (DetectionFailed 0)"
    by (simp add: eval_defs demo_file_def demo_rows_def detector_fails_def)
  then have "parallel_cell detector_fails ?L =
      (Some (DetectionFailed 0), snd (parallel_cell detector_fails ?L))"
    by (metis prod.collapse)
  with main [where X = detector_fails and w = ?L and e = "DetectionFailed 0"
      and w' = "snd (parallel_cell detector_fails ?L)"]
  have p': "ns (snd (parallel_cell detector_fails ?L)) ''time_parallel'' = None"
    by (simp add: loaded_demo named_def)
  txt \<open>the Dask cell fails\<close>
  have d: "fst (dask_cell demo_externals ?L) = Some (NameError ''raw_data_list'')"
    by (simp add: eval_defs demo_file_def named_def)
  then have "dask_cell demo_externals ?L =
      (Some (NameError ''raw_data_list''), snd (dask_cell demo_externals ?L))"
    by (metis prod.collapse)
  with main [where X = demo_externals and w = ?L and e = "NameError ''raw_data_list''"
      and w' = "snd (dask_cell demo_externals ?L)"]
  have d': "ns (snd (dask_cell demo_externals ?L)) ''time_dask'' = None"
    by (simp add: loaded_demo named_def)
  txt \<open>the run from top to bottom stops\<close>
  have parts: "notebook picky_externals = ?before @ serial_cell picky_externals # ?after"
    by (simp add: notebook_def strategy_cells_def)
  from picky_pixel have before: "exec ?before ?F = (None, ?P)"
    by (metis prod.collapse)
  have "fst (serial_cell picky_externals ?P) = Some (Raised ''no peak'')"
    by (simp add: notebook_eval)
  then have fails: "serial_cell picky_externals ?P =
      (Some (Raised ''no peak''), snd (serial_cell picky_externals ?P))"
    by (metis prod.collapse)
  from main [where X = picky_externals and w = ?F and e = "Raised ''no peak''"
      and before = ?before and c = "serial_cell picky_externals" and after = ?after
      and ?w1.0 = ?P and w' = "snd (serial_cell picky_externals ?P)"]
  have "notebook picky_externals = ?before @ serial_cell picky_externals # ?after \<and>
      exec ?before ?F = (None, ?P) \<and>
      serial_cell picky_externals ?P =
        (Some (Raised ''no peak''), snd (serial_cell picky_externals ?P)) \<longrightarrow>
      run_all picky_externals ?F =
        (Some (Raised ''no peak''), snd (serial_cell picky_externals ?P))"
    by blast
  with parts before fails
  have "run_all picky_externals ?F =
      (Some (Raised ''no peak''), snd (serial_cell picky_externals ?P))"
    by blast
  then have r: "fst (run_all picky_externals ?F) = Some (Raised ''no peak'')"
    by simp
  txt \<open>the plot cell raises on a missing sample and writes nothing\<close>
  have u: "ns ?L ''core_serial'' = None"
    by (simp add: loaded_demo named_def)
  from main [where X = demo_externals and w = ?L]
  have "ns ?L ''core_serial'' = None \<longrightarrow> fst (plot_cell demo_externals ?L) \<noteq> None"
    by blast
  with u have raises: "fst (plot_cell demo_externals ?L) \<noteq> None"
    by blast
  have q: "fst (plot_cell demo_externals ?L) = Some (NameError ''core_serial'')"
    using raises by (simp add: eval_defs named_def)
  then have "plot_cell demo_externals ?L =
      (Some (NameError ''core_serial''), snd (plot_cell demo_externals ?L))"
    by (metis prod.collapse)
  with main [where X = demo_externals and w = ?L and e = "NameError ''core_serial''"
      and w' = "snd (plot_cell demo_externals ?L)"]
  have q': "fs (snd (plot_cell demo_externals ?L)) = fs ?L"
    by simp
  from s s' p p' d d' picky_pixel r u q q' show ?thesis
    by simp
qed

subsection \<open>Rows on which the detector succeeds\<close>

lemma for_vector_all_ok:
  assumes "\<forall>v\<in>set rows. find_all_peaks X v [20, 60] 30 = Inr (g v)"
    and "ns w ''serial_results'' = Some (VResults acc)"
  shows "for_vector X rows w =
     (None,
      if rows = [] then w
      else w\<lparr>ns := (ns w)(''vector'' \<mapsto> VRow (last rows),
                             ''serial_results'' \<mapsto> VResults (acc @ map g rows)),
              hist := hist w @ replicate (length rows) EvDetect\<rparr>)"
  using assms
proof (induction rows arbitrary: w acc)
  case Nil
  show ?case by simp
next
  case (Cons v vs)
  let ?w2 = "assign ''serial_results'' (VResults (acc @ [g v]))
      (record_event EvDetect (assign ''vector'' (VRow v) w))"
  from Cons.prems have step: "for_vector X (v # vs) w = for_vector X vs ?w2"
    by (simp add: Let_def andthen_def lookup_def as_results_def)
  from Cons.prems have "\<forall>u\<in>set vs. find_all_peaks X u [20, 60] 30 = Inr (g u)"
    by simp
  moreover have "ns ?w2 ''serial_results'' = Some (VResults (acc @ [g v]))"
    by simp
  ultimately have "for_vector X vs ?w2 =
     (None,
      if vs = [] then ?w2
      else ?w2\<lparr>ns := (ns ?w2)(''vector'' \<mapsto> VRow (last vs),
                             ''serial_results'' \<mapsto> VResults ((acc @ [g v]) @ map g vs)),
              hist := hist ?w2 @ replicate (length vs) EvDetect\<rparr>)"
    by (rule Cons.IH)
  with step show ?case
    by (simp add: assign_def record_event_def replicate_append_same [symmetric])
qed

lemma worker_all_ok:
  "\<forall>v\<in>set rows. f v = Inr (g v) \<Longrightarrow> worker f i rows = Inr (map g rows)"
  by (induction rows arbitrary: i) simp_all

lemma worker_list_all2:
  "worker f i rows = Inr rs \<Longrightarrow> list_all2 (\<lambda>v p. f v = Inr p) rows rs"
  by (induction rows arbitrary: i rs) (auto split: sum.splits)

subsection \<open>The results of the three strategies\<close>

lemma dask_cell_unbound_name:
  assumes "ns w ''raw_data_list'' = None"
  shows "(\<exists>e. fst (dask_cell X w) = Some e) \<and>
     ns (snd (dask_cell X w)) ''dask_results'' = ns w ''dask_results'' \<and>
     ns (snd (dask_cell X w)) ''cores_dask'' = ns w ''cores_dask'' \<and>
     ns (snd (dask_cell X w)) ''time_dask'' = ns w ''time_dask''"
proof (cases "dask_cell X w")
  case (Pair r w')
  show ?thesis
  proof (cases r)
    case None
    with Pair dask_cell_completes [of X w w'] assms show ?thesis by simp
  next
    case (Some e)
    with Pair have run: "dask_cell X w = (Some e, w')" by simp
    from run assms have "ns w' ''dask_results'' = ns w ''dask_results'' \<and>
        ns w' ''cores_dask'' = ns w ''cores_dask'' \<and> ns w' ''time_dask'' = ns w ''time_dask''"
      unfolding dask_cell_def
      by (auto simp: exec_Cons_Some unwind_dask atomic_Some client_stmt_Some close_stmt_Some
          elapsed_stmt_Some)
    with run show ?thesis by simp
  qed
qed

text \<open>
  C5, on the code. A completed serial cell binds \<open>serial_results\<close>, and a completed
  parallel cell \<open>parallel_results\<close>, to a sequence with one element per row of the
  dataset, element \<open>i\<close> being the detector's answer for row \<open>i\<close> (so within the row
  whenever the detector keeps its contract). The Dask cell does not: in a kernel where
  \<open>raw_data_list\<close> is unbound, as it is unless the caller bound it, the cell raises and
  leaves \<open>dask_results\<close> as it was.
\<close>

theorem results_follow_rows_but_not_for_dask:
  "(serial_cell X w = (None, w') \<longrightarrow>
      (\<exists>rows ps. read_all w = Inr rows \<and> ns w' ''serial_results'' = Some (VResults ps) \<and>
         list_all2 (\<lambda>v p. find_all_peaks X v [20, 60] 30 = Inr p) rows ps)) \<and>
   (parallel_cell X w = (None, w') \<longrightarrow>
      (\<exists>rows ps. read_all w = Inr rows \<and> ns w' ''parallel_results'' = Some (VResults ps) \<and>
         list_all2 (\<lambda>v p. find_all_peaks X v [20, 60] 30 = Inr p) rows ps)) \<and>
   (ns w ''raw_data_list'' = None \<longrightarrow>
      (\<exists>e. fst (dask_cell X w) = Some e) \<and>
      ns (snd (dask_cell X w)) ''dask_results'' = ns w ''dask_results'')"
proof (intro conjI impI)
  assume "serial_cell X w = (None, w')"
  from serial_cell_completes [OF this]
  show "\<exists>rows ps. read_all w = Inr rows \<and> ns w' ''serial_results'' = Some (VResults ps) \<and>
         list_all2 (\<lambda>v p. find_all_peaks X v [20, 60] 30 = Inr p) rows ps"
    by blast
next
  assume "parallel_cell X w = (None, w')"
  from parallel_cell_completes [OF this] obtain rows rs where
    "read_all w = Inr rows" "worker (\<lambda>v. find_all_peaks X v [20, 60] 30) 0 rows = Inr rs"
    "ns w' ''parallel_results'' = Some (VResults rs)"
    by blast
  with worker_list_all2 [of "\<lambda>v. find_all_peaks X v [20, 60] 30" 0 rows rs]
  show "\<exists>rows ps. read_all w = Inr rows \<and> ns w' ''parallel_results'' = Some (VResults ps) \<and>
         list_all2 (\<lambda>v p. find_all_peaks X v [20, 60] 30 = Inr p) rows ps"
    by blast
next
  assume unbound: "ns w ''raw_data_list'' = None"
  from dask_cell_unbound_name [OF unbound] show "\<exists>e. fst (dask_cell X w) = Some e"
    by blast
  from dask_cell_unbound_name [OF unbound]
  show "ns (snd (dask_cell X w)) ''dask_results'' = ns w ''dask_results''"
    by blast
qed

theorem results_follow_rows_but_not_for_dask_witness:
  "fst (serial_cell demo_externals (loaded demo_externals Map.empty)) = None \<and>
   ns (snd (serial_cell demo_externals (loaded demo_externals Map.empty))) ''serial_results'' =
     Some (VResults [[4], [4], [4]]) \<and>
   fst (parallel_cell demo_externals (loaded demo_externals Map.empty)) = None \<and>
   ns (snd (parallel_cell demo_externals (loaded demo_externals Map.empty))) ''parallel_results'' =
     Some (VResults [[4], [4], [4]]) \<and>
   ns (loaded demo_externals Map.empty) ''raw_data_list'' = None \<and>
   fst (dask_cell demo_externals (loaded demo_externals Map.empty)) =
     Some (NameError ''raw_data_list'') \<and>
   ns (snd (dask_cell demo_externals (loaded demo_externals Map.empty))) ''dask_results'' = None"
proof -
  let ?E = "loaded demo_externals Map.empty"
  note main = results_follow_rows_but_not_for_dask
  have rows: "read_all ?E = Inr demo_rows"
    by (simp add: loaded_demo read_all_def lookup_def andthen_def as_defs dataset_at_def
        demo_file_def)
  have s: "fst (serial_cell demo_externals ?E) = None"
    by (simp add: eval_defs demo_file_def demo_rows_def)
  then have "serial_cell demo_externals ?E = (None, snd (serial_cell demo_externals ?E))"
    by (metis prod.collapse)
  with main [where X = demo_externals and w = ?E and w' = "snd (serial_cell demo_externals ?E)"]
  obtain ps where "ns (snd (serial_cell demo_externals ?E)) ''serial_results'' = Some (VResults ps)"
    and "list_all2 (\<lambda>v p. find_all_peaks demo_externals v [20, 60] 30 = Inr p) demo_rows ps"
    using rows by auto
  then have s': "ns (snd (serial_cell demo_externals ?E)) ''serial_results'' =
      Some (VResults [[4], [4], [4]])"
    by (auto simp: demo_rows_def demo_externals_sel list_all2_Cons1)
  have p: "fst (parallel_cell demo_externals ?E) = None"
    by (simp add: eval_defs demo_file_def demo_rows_def)
  then have "parallel_cell demo_externals ?E = (None, snd (parallel_cell demo_externals ?E))"
    by (metis prod.collapse)
  with main [where X = demo_externals and w = ?E and w' = "snd (parallel_cell demo_externals ?E)"]
  obtain ps where "ns (snd (parallel_cell demo_externals ?E)) ''parallel_results'' = Some (VResults ps)"
    and "list_all2 (\<lambda>v p. find_all_peaks demo_externals v [20, 60] 30 = Inr p) demo_rows ps"
    using rows by auto
  then have p': "ns (snd (parallel_cell demo_externals ?E)) ''parallel_results'' =
      Some (VResults [[4], [4], [4]])"
    by (auto simp: demo_rows_def demo_externals_sel list_all2_Cons1)
  have u: "ns ?E ''raw_data_list'' = None" "ns ?E ''dask_results'' = None"
    by (simp_all add: loaded_demo)
  with main [where X = demo_externals and w = ?E]
  have d': "ns (snd (dask_cell demo_externals ?E)) ''dask_results'' = None"
    by simp
  have d: "fst (dask_cell demo_externals ?E) = Some (NameError ''raw_data_list'')"
    by (simp add: eval_defs demo_file_def)
  from s s' p p' u d d' show ?thesis by simp
qed

subsection \<open>The notebook run from a fresh kernel\<close>

lemma load_tall:
  "load_cell tall_externals (fresh names Map.empty) =
     (None,
      \<lparr>ns = names(''url'' \<mapsto> VStr url_literal, ''h5_path'' \<mapsto> VStr ''temp.h5'',
               ''_'' \<mapsto> VStr ''temp.h5'', ''h5_file'' \<mapsto> VFile ''temp.h5'',
               ''h5_meas_grp'' \<mapsto> VGroup ''temp.h5'', ''h5_main'' \<mapsto> VDataset ''temp.h5'',
               ''num_rows'' \<mapsto> VInt 136, ''num_cols'' \<mapsto> VInt 1),
       fs = [''temp.h5'' \<mapsto> tall_file],
       conn = Disconnected, hist = [EvDownload], fig = []\<rparr>)"
  by (simp add: load_cell_fresh [where r = 136 and c = 1] tall_externals_def tall_file_def)

lemma tall_sel:
  "find_all_peaks tall_externals = (\<lambda>v wb n. Inr [1])"
  "clock tall_externals = (\<lambda>h. real (length h))"
  "new_client tall_externals = None"
  "client_scatter tall_externals = (\<lambda>d. Inr (VFuture 0))"
  "client_map tall_externals = (\<lambda>d a k. Inr (VFutures [1]))"
  "client_gather tall_externals = (\<lambda>l. Inr (VResults [[1]]))"
  "client_ncores tall_externals = Inr (VCores [(''worker'', 4)])"
  "client_close tall_externals = None"
  "py_str tall_externals = (\<lambda>v. ''object'')"
  by (simp_all add: tall_externals_def demo_externals_sel)

lemmas tall_eval =
  run_all_def notebook_def strategy_cells_def load_tall pixel_defs cell_defs stmt_defs as_defs
  tall_file_def tall_sel named_def
  for_vector_all_ok [where g = "\<lambda>v. [1]"] worker_all_ok [where g = "\<lambda>v. [1]"]

text \<open>
  C1 at a fresh kernel, for a dataset of 136 rows and a detector that answers \<open>[1]\<close>
  for every row: the serial and the parallel cell bind the same 136 results; the Dask cell
  raises \<open>NameError\<close> for \<open>raw_data_list\<close> and never binds \<open>dask_results\<close>, whether the
  notebook is run to the first error or cell by cell.
\<close>

theorem dask_results_never_bound:
  "fst (run_each (notebook tall_externals) (fresh Map.empty Map.empty)) =
     [None, None, None, None, Some (NameError ''raw_data_list''), Some (NameError ''cores_dask'')] \<and>
   ns (snd (run_each (notebook tall_externals) (fresh Map.empty Map.empty))) ''serial_results'' =
     Some (VResults (replicate 136 [1])) \<and>
   ns (snd (run_each (notebook tall_externals) (fresh Map.empty Map.empty))) ''parallel_results'' =
     Some (VResults (replicate 136 [1])) \<and>
   ns (snd (run_each (notebook tall_externals) (fresh Map.empty Map.empty))) ''dask_results'' = None \<and>
   fst (run_all tall_externals (fresh Map.empty Map.empty)) = Some (NameError ''raw_data_list'') \<and>
   ns (snd (run_all tall_externals (fresh Map.empty Map.empty))) ''dask_results'' = None"
proof -
  let ?F = "fresh Map.empty Map.empty :: int nb"
  have a: "fst (run_each (notebook tall_externals) ?F) =
     [None, None, None, None, Some (NameError ''raw_data_list''), Some (NameError ''cores_dask'')]"
    by (simp add: tall_eval)
  have b: "ns (snd (run_each (notebook tall_externals) ?F)) ''serial_results'' =
     Some (VResults (replicate 136 [1]))"
    by (simp add: tall_eval)
  have c: "ns (snd (run_each (notebook tall_externals) ?F)) ''parallel_results'' =
     Some (VResults (replicate 136 [1]))"
    by (simp add: tall_eval)
  have d: "ns (snd (run_each (notebook tall_externals) ?F)) ''dask_results'' = None"
    by (simp add: tall_eval)
  have e: "fst (run_all tall_externals ?F) = Some (NameError ''raw_data_list'')"
    by (simp add: tall_eval)
  have f: "ns (snd (run_all tall_externals ?F)) ''dask_results'' = None"
    by (simp add: tall_eval)
  from a b c d e f show ?thesis by simp
qed

text \<open>
  C4 at a fresh kernel in which the caller has bound \<open>png_name\<close>: since the Dask cell
  raised, \<open>cores_dask\<close> is unbound, the plot cell raises \<open>NameError\<close> at its third
  \<open>scatter\<close> and no image is written; run to the first error, the notebook does not
  reach the plot cell at all.
\<close>

theorem plot_cell_raises_name_error:
  "fst (run_each (notebook tall_externals) (fresh named Map.empty)) =
     [None, None, None, None, Some (NameError ''raw_data_list''), Some (NameError ''cores_dask'')] \<and>
   fs (snd (run_each (notebook tall_externals) (fresh named Map.empty))) ''benchmark.png'' = None \<and>
   fst (run_all tall_externals (fresh named Map.empty)) = Some (NameError ''raw_data_list'') \<and>
   fs (snd (run_all tall_externals (fresh named Map.empty))) ''benchmark.png'' = None"
proof -
  let ?F = "fresh named Map.empty :: int nb"
  have a: "fst (run_each (notebook tall_externals) ?F) =
     [None, None, None, None, Some (NameError ''raw_data_list''), Some (NameError ''cores_dask'')]"
    by (simp add: tall_eval)
  have b: "fs (snd (run_each (notebook tall_externals) ?F)) ''benchmark.png'' = None"
    by (simp add: tall_eval)
  have c: "fst (run_all tall_externals ?F) = Some (NameError ''raw_data_list'')"
    by (simp add: tall_eval)
  have d: "fs (snd (run_all tall_externals ?F)) ''benchmark.png'' = None"
    by (simp add: tall_eval)
  from a b c d show ?thesis by simp
qed

lemma load_empty:
  "load_cell empty_externals (fresh names Map.empty) =
     (Some ValueError,
      \<lparr>ns = names(''url'' \<mapsto> VStr url_literal, ''h5_path'' \<mapsto> VStr ''temp.h5'',
               ''_'' \<mapsto> VStr ''temp.h5'', ''h5_file'' \<mapsto> VFile ''temp.h5'',
               ''h5_meas_grp'' \<mapsto> VGroup ''temp.h5'', ''h5_main'' \<mapsto> VDataset ''temp.h5''),
       fs = [''temp.h5'' \<mapsto> empty_file],
       conn = Disconnected, hist = [EvDownload], fig = []\<rparr>)"
  by (simp add: load_cell_def cleanup_def open_stmts_def fresh_def
      remove_stale_def download_stmt_def wget_download_def open_stmt_def group_stmt_def
      main_stmt_def dims_stmt_def dataset_at_def stmt_defs as_defs empty_externals_def
      empty_file_def)

lemma empty_sel:
  "find_all_peaks empty_externals = (\<lambda>v wb n. Inr [4])"
  "clock empty_externals = (\<lambda>h. real (length h))"
  "new_client empty_externals = None"
  "client_scatter empty_externals = (\<lambda>d. Inr (VFuture 0))"
  by (simp_all add: empty_externals_def demo_externals_sel)

lemmas empty_eval =
  load_empty cell_defs stmt_defs as_defs empty_file_def empty_sel

text \<open>
  C7 at a fresh kernel, for a dataset without rows, running the loading cell, the serial
  cell and the Dask cell: the loading cell raises \<open>ValueError\<close> at its last statement,
  after it has bound \<open>h5_main\<close>; the serial cell binds an empty results sequence and its
  parallelism 1; the Dask cell raises \<open>NameError\<close> and binds neither results nor
  parallelism.
\<close>

theorem empty_dataset_dask_raises:
  "fst (run_each [load_cell empty_externals, serial_cell empty_externals,
                  dask_cell empty_externals] (fresh Map.empty Map.empty)) =
     [Some ValueError, None, Some (NameError ''raw_data_list'')] \<and>
   ns (snd (run_each [load_cell empty_externals, serial_cell empty_externals,
                      dask_cell empty_externals] (fresh Map.empty Map.empty))) ''serial_results'' =
     Some (VResults []) \<and>
   ns (snd (run_each [load_cell empty_externals, serial_cell empty_externals,
                      dask_cell empty_externals] (fresh Map.empty Map.empty))) ''core_serial'' =
     Some (VInt 1) \<and>
   ns (snd (run_each [load_cell empty_externals, serial_cell empty_externals,
                      dask_cell empty_externals] (fresh Map.empty Map.empty))) ''dask_results'' = None \<and>
   ns (snd (run_each [load_cell empty_externals, serial_cell empty_externals,
                      dask_cell empty_externals] (fresh Map.empty Map.empty))) ''cores_dask'' = None"
proof -
  let ?F = "fresh Map.empty Map.empty :: int nb"
  let ?cells = "[load_cell empty_externals, serial_cell empty_externals, dask_cell empty_externals]"
  have a: "fst (run_each ?cells ?F) = [Some ValueError, None, Some (NameError ''raw_data_list'')]"
    by (simp add: empty_eval)
  have b: "ns (snd (run_each ?cells ?F)) ''serial_results'' = Some (VResults [])"
    by (simp add: empty_eval)
  have c: "ns (snd (run_each ?cells ?F)) ''core_serial'' = Some (VInt 1)"
    by (simp add: empty_eval)
  have d: "ns (snd (run_each ?cells ?F)) ''dask_results'' = None"
    by (simp add: empty_eval)
  have e: "ns (snd (run_each ?cells ?F)) ''cores_dask'' = None"
    by (simp add: empty_eval)
  from a b c d e show ?thesis by simp
qed

end
